theory Spec2Isabelle
  imports Main "HOL-Library.Word" "HOL-Library.Sublist"
begin

unbundle bit_operations_syntax

section \<open>QTShortcut.c: creating a shortcut movie file\<close>

text \<open>
  The source file has two functions, \<^verbatim>\<open>QTShortCut_CreateShortcutMovieFile\<close> and
  \<^verbatim>\<open>QTShortCut_WriteHandleToFile\<close>. Both are sequences of calls into the Macintosh
  toolbox (Gestalt, the Memory Manager, the File Manager, QuickTime). The embedding keeps
  the two functions as they are written and makes everything around them explicit:
  \<^item> the memory the program owns is a store of blocks (\<open>heap\<close>);
  \<^item> every toolbox call that can fail or that touches the outside world is answered by
    an environment \<open>E\<close>, a record of functions over an arbitrary world \<open>'w\<close>;
  \<^item> every such call is appended, with its reply, to a \<open>trace\<close>, so that theorems
    can speak about which calls were made and in which order. Calls that only act on the
    program's own blocks and return nothing (\<^verbatim>\<open>HLock\<close>, \<^verbatim>\<open>HUnlock\<close>, \<^verbatim>\<open>BlockMove\<close>,
    \<^verbatim>\<open>DisposePtr\<close>, \<^verbatim>\<open>DisposeHandle\<close>, the size queries) act on the heap and are not in
    the trace.
\<close>

subsection \<open>Machine types\<close>

type_synonym byte = "8 word"
type_synonym OSErr = "16 word"   \<comment> \<open>\<^verbatim>\<open>short\<close>, read signed\<close>
type_synonym OSType = "32 word"  \<comment> \<open>four-character code\<close>
type_synonym Size = "32 word"    \<comment> \<open>\<^verbatim>\<open>long\<close> and \<^verbatim>\<open>unsigned long\<close>: 32 bits\<close>
type_synonym FSSpec = string     \<comment> \<open>the identity of a file\<close>

text \<open>Result codes of the system headers (MacErrors.h).\<close>

definition noErr :: OSErr where "noErr = 0"
definition ioErr :: OSErr where "ioErr = - 36"
definition eofErr :: OSErr where "eofErr = - 39"
definition posErr :: OSErr where "posErr = - 40"
definition fnfErr :: OSErr where "fnfErr = - 43"
definition fBsyErr :: OSErr where "fBsyErr = - 47"
definition dupFNErr :: OSErr where "dupFNErr = - 48"
definition paramErr :: OSErr where "paramErr = - 50"
definition rfNumErr :: OSErr where "rfNumErr = - 51"
definition memFullErr :: OSErr where "memFullErr = - 108"

text \<open>
  \<^verbatim>\<open>EndianU32_NtoB(x)\<close> yields the 32-bit value whose image in memory is \<open>x\<close> in
  big-endian order, whatever the byte order of the host. The model works on memory
  images, so the function returns the four bytes, most significant first.
\<close>

definition EndianU32_NtoB :: "32 word \<Rightarrow> byte list" where
  "EndianU32_NtoB x =
     [ucast (drop_bit 24 x), ucast (drop_bit 16 x), ucast (drop_bit 8 x), ucast x]"

subsection \<open>The Memory Manager's blocks\<close>

text \<open>
  A \<^verbatim>\<open>Ptr\<close> or a \<^verbatim>\<open>Handle\<close> is \<open>None\<close> (\<^verbatim>\<open>NULL\<close>) or the address of a block.
  An address is an index into the store; a disposed block leaves \<open>None\<close> in its slot, and
  a new block takes the next index, so a live address is never handed out twice.
\<close>

record block =
  contents :: "byte list"
  locked :: bool

type_synonym memory = "block option list"
type_synonym pointer = "nat option"

definition deref :: "memory \<Rightarrow> pointer \<Rightarrow> block option" where
  "deref m p =
     (case p of None \<Rightarrow> None
      | Some a \<Rightarrow> if a < length m then m ! a else None)"

definition block_bytes :: "memory \<Rightarrow> pointer \<Rightarrow> byte list" where
  "block_bytes m p = (case deref m p of None \<Rightarrow> [] | Some b \<Rightarrow> contents b)"

definition update_block :: "pointer \<Rightarrow> (block \<Rightarrow> block) \<Rightarrow> memory \<Rightarrow> memory" where
  "update_block p g m =
     (case p of None \<Rightarrow> m
      | Some a \<Rightarrow>
          if a < length m
          then (case m ! a of None \<Rightarrow> m | Some b \<Rightarrow> m[a := Some (g b)])
          else m)"

definition new_block :: "nat \<Rightarrow> memory \<Rightarrow> pointer \<times> memory" where
  "new_block n m = (Some (length m), m @ [Some \<lparr>contents = replicate n 0, locked = False\<rparr>])"

definition dispose_block :: "pointer \<Rightarrow> memory \<Rightarrow> memory" where
  "dispose_block p m =
     (case p of None \<Rightarrow> m
      | Some a \<Rightarrow> if a < length m then m[a := None] else m)"

text \<open>
  Overwriting \<open>bs\<close> at offset \<open>off\<close> of a block. C defines this only when
  \<open>off + length bs\<close> is within the block; the model never lets a block grow by it.
\<close>

definition poke :: "byte list \<Rightarrow> nat \<Rightarrow> byte list \<Rightarrow> byte list" where
  "poke c off bs = take (length c) (take off c @ bs @ drop (off + length bs) c)"

subsection \<open>State, environment and trace\<close>

datatype toolbox_call =
    Gestalt_call
  | CreateShortcutMovieFile_call FSSpec
  | NewPtrClear_call Size
  | NewHandleClear_call Size
  | PtrAndHand_call Size
  | FSpDelete_call FSSpec
  | FSpCreate_call FSSpec
  | FSpOpenDF_call FSSpec
  | SetFPos_call "16 word" Size
  | FSWrite_call "16 word" Size "byte list"
  | SetEOF_call "16 word" Size
  | FSClose_call "16 word"
  | GetVRefNum_call "16 word"
  | FlushVol_call "16 word"

type_synonym event = "toolbox_call \<times> OSErr"

record 'w state =
  heap :: memory
  trace :: "event list"
  os :: 'w

text \<open>
  The environment: what the host answers to each call, as a function of its own state
  \<open>'w\<close>, and the constants and the compile-time switch that come from headers which are
  not part of the source file (\<^verbatim>\<open>QTShortCut.h\<close>, the QuickTime and system headers).
  The File Manager never gets the heap: \<^verbatim>\<open>FSWrite\<close> takes the buffer as a
  \<^verbatim>\<open>const void *\<close>, which the model passes as the bytes it points to.
\<close>

record 'w env =
  MovieAID :: OSType
  MovieDataRefAliasAID :: OSType
  DataRefAID :: OSType
  kShortcutFileCreator :: OSType
  kShortcutFileType :: OSType
  TARGET_OS_MAC :: bool
  os_Gestalt :: "'w \<Rightarrow> (OSErr \<times> 32 word) \<times> 'w"
  os_CreateShortcutMovieFile :: "FSSpec \<Rightarrow> OSType \<Rightarrow> byte list \<Rightarrow> OSType \<Rightarrow> 'w \<Rightarrow> OSErr \<times> 'w"
  os_NewPtrClear :: "Size \<Rightarrow> 'w \<Rightarrow> bool \<times> 'w"
  os_NewHandleClear :: "Size \<Rightarrow> 'w \<Rightarrow> bool \<times> 'w"
  os_PtrAndHand :: "Size \<Rightarrow> 'w \<Rightarrow> OSErr \<times> 'w"
  os_FSpDelete :: "FSSpec \<Rightarrow> 'w \<Rightarrow> OSErr \<times> 'w"
  os_FSpCreate :: "FSSpec \<Rightarrow> OSType \<Rightarrow> OSType \<Rightarrow> 'w \<Rightarrow> OSErr \<times> 'w"
  os_FSpOpenDF :: "FSSpec \<Rightarrow> 'w \<Rightarrow> (OSErr \<times> 16 word) \<times> 'w"
  os_SetFPos :: "16 word \<Rightarrow> Size \<Rightarrow> 'w \<Rightarrow> OSErr \<times> 'w"
  os_FSWrite :: "16 word \<Rightarrow> Size \<Rightarrow> byte list \<Rightarrow> 'w \<Rightarrow> (OSErr \<times> Size) \<times> 'w"
  os_SetEOF :: "16 word \<Rightarrow> Size \<Rightarrow> 'w \<Rightarrow> OSErr \<times> 'w"
  os_FSClose :: "16 word \<Rightarrow> 'w \<Rightarrow> OSErr \<times> 'w"
  os_GetVRefNum :: "16 word \<Rightarrow> 'w \<Rightarrow> (OSErr \<times> 16 word) \<times> 'w"
  os_FlushVol :: "16 word \<Rightarrow> 'w \<Rightarrow> OSErr \<times> 'w"

definition record_call :: "toolbox_call \<Rightarrow> OSErr \<Rightarrow> 'w \<Rightarrow> 'w state \<Rightarrow> 'w state" where
  "record_call c e w s = s\<lparr>trace := trace s @ [(c, e)], os := w\<rparr>"

subsection \<open>Memory Manager calls\<close>

definition GetHandleSize :: "pointer \<Rightarrow> 'w state \<Rightarrow> Size" where
  "GetHandleSize h s = word_of_nat (length (block_bytes (heap s) h))"

definition GetPtrSize :: "pointer \<Rightarrow> 'w state \<Rightarrow> Size" where
  "GetPtrSize p s = word_of_nat (length (block_bytes (heap s) p))"

definition HLock :: "pointer \<Rightarrow> 'w state \<Rightarrow> 'w state" where
  "HLock h s = s\<lparr>heap := update_block h (\<lambda>b. b\<lparr>locked := True\<rparr>) (heap s)\<rparr>"

definition HUnlock :: "pointer \<Rightarrow> 'w state \<Rightarrow> 'w state" where
  "HUnlock h s = s\<lparr>heap := update_block h (\<lambda>b. b\<lparr>locked := False\<rparr>) (heap s)\<rparr>"

definition DisposePtr :: "pointer \<Rightarrow> 'w state \<Rightarrow> 'w state" where
  "DisposePtr p s = s\<lparr>heap := dispose_block p (heap s)\<rparr>"

definition DisposeHandle :: "pointer \<Rightarrow> 'w state \<Rightarrow> 'w state" where
  "DisposeHandle h s = s\<lparr>heap := dispose_block h (heap s)\<rparr>"

text \<open>\<^verbatim>\<open>BlockMove(src, dst + off, n)\<close>, with the source given by its bytes.\<close>

definition BlockMove :: "byte list \<Rightarrow> pointer \<Rightarrow> nat \<Rightarrow> nat \<Rightarrow> 'w state \<Rightarrow> 'w state" where
  "BlockMove src dst off n s =
     s\<lparr>heap := update_block dst (\<lambda>b. b\<lparr>contents := poke (contents b) off (take n src)\<rparr>) (heap s)\<rparr>"

text \<open>\<^verbatim>\<open>*((long *)(*h + off)) = v\<close>, the value given by its four bytes in memory.\<close>

definition store_long :: "pointer \<Rightarrow> nat \<Rightarrow> byte list \<Rightarrow> 'w state \<Rightarrow> 'w state" where
  "store_long h off v s = BlockMove v h off 4 s"

definition NewPtrClear :: "'w env \<Rightarrow> Size \<Rightarrow> 'w state \<Rightarrow> pointer \<times> 'w state" where
  "NewPtrClear E n s =
     (case os_NewPtrClear E n (os s) of
        (granted, w) \<Rightarrow>
          if granted
          then (case new_block (unat n) (heap s) of
                  (p, m) \<Rightarrow> (p, record_call (NewPtrClear_call n) noErr w (s\<lparr>heap := m\<rparr>)))
          else (None, record_call (NewPtrClear_call n) memFullErr w s))"

definition NewHandleClear :: "'w env \<Rightarrow> Size \<Rightarrow> 'w state \<Rightarrow> pointer \<times> 'w state" where
  "NewHandleClear E n s =
     (case os_NewHandleClear E n (os s) of
        (granted, w) \<Rightarrow>
          if granted
          then (case new_block (unat n) (heap s) of
                  (p, m) \<Rightarrow> (p, record_call (NewHandleClear_call n) noErr w (s\<lparr>heap := m\<rparr>)))
          else (None, record_call (NewHandleClear_call n) memFullErr w s))"

text \<open>\<^verbatim>\<open>PtrAndHand(p, h, n)\<close> appends \<open>n\<close> bytes of \<open>p\<close> to the block of \<open>h\<close>, or fails.\<close>

definition PtrAndHand :: "'w env \<Rightarrow> pointer \<Rightarrow> pointer \<Rightarrow> Size \<Rightarrow> 'w state \<Rightarrow> OSErr \<times> 'w state" where
  "PtrAndHand E p h n s =
     (case os_PtrAndHand E n (os s) of
        (e, w) \<Rightarrow>
          if e = noErr
          then (e, record_call (PtrAndHand_call n) e w
                  (s\<lparr>heap := update_block h
                       (\<lambda>b. b\<lparr>contents := contents b @ take (unat n) (block_bytes (heap s) p)\<rparr>)
                       (heap s)\<rparr>))
          else (e, record_call (PtrAndHand_call n) e w s))"

subsection \<open>Gestalt, QuickTime and File Manager calls\<close>

definition Gestalt :: "'w env \<Rightarrow> 'w state \<Rightarrow> (OSErr \<times> 32 word) \<times> 'w state" where
  "Gestalt E s =
     (case os_Gestalt E (os s) of
        ((e, v), w) \<Rightarrow> ((e, v), record_call Gestalt_call e w s))"

definition CreateShortcutMovieFile ::
    "'w env \<Rightarrow> FSSpec \<Rightarrow> pointer \<Rightarrow> OSType \<Rightarrow> 'w state \<Rightarrow> OSErr \<times> 'w state" where
  "CreateShortcutMovieFile E spec theDataRef theDataRefType s =
     (case os_CreateShortcutMovieFile E spec (kShortcutFileCreator E)
             (block_bytes (heap s) theDataRef) theDataRefType (os s) of
        (e, w) \<Rightarrow> (e, record_call (CreateShortcutMovieFile_call spec) e w s))"

definition FSpDelete :: "'w env \<Rightarrow> FSSpec \<Rightarrow> 'w state \<Rightarrow> OSErr \<times> 'w state" where
  "FSpDelete E spec s =
     (case os_FSpDelete E spec (os s) of
        (e, w) \<Rightarrow> (e, record_call (FSpDelete_call spec) e w s))"

definition FSpCreate :: "'w env \<Rightarrow> FSSpec \<Rightarrow> 'w state \<Rightarrow> OSErr \<times> 'w state" where
  "FSpCreate E spec s =
     (case os_FSpCreate E spec (kShortcutFileCreator E) (kShortcutFileType E) (os s) of
        (e, w) \<Rightarrow> (e, record_call (FSpCreate_call spec) e w s))"

definition FSpOpenDF :: "'w env \<Rightarrow> FSSpec \<Rightarrow> 'w state \<Rightarrow> (OSErr \<times> 16 word) \<times> 'w state" where
  "FSpOpenDF E spec s =
     (case os_FSpOpenDF E spec (os s) of
        ((e, r), w) \<Rightarrow> ((e, r), record_call (FSpOpenDF_call spec) e w s))"

definition SetFPos :: "'w env \<Rightarrow> 16 word \<Rightarrow> Size \<Rightarrow> 'w state \<Rightarrow> OSErr \<times> 'w state" where
  "SetFPos E r off s =
     (case os_SetFPos E r off (os s) of
        (e, w) \<Rightarrow> (e, record_call (SetFPos_call r off) e w s))"

definition FSWrite ::
    "'w env \<Rightarrow> 16 word \<Rightarrow> Size \<Rightarrow> byte list \<Rightarrow> 'w state \<Rightarrow> (OSErr \<times> Size) \<times> 'w state" where
  "FSWrite E r n buf s =
     (case os_FSWrite E r n buf (os s) of
        ((e, n'), w) \<Rightarrow> ((e, n'), record_call (FSWrite_call r n buf) e w s))"

definition SetEOF :: "'w env \<Rightarrow> 16 word \<Rightarrow> Size \<Rightarrow> 'w state \<Rightarrow> OSErr \<times> 'w state" where
  "SetEOF E r n s =
     (case os_SetEOF E r n (os s) of
        (e, w) \<Rightarrow> (e, record_call (SetEOF_call r n) e w s))"

definition FSClose :: "'w env \<Rightarrow> 16 word \<Rightarrow> 'w state \<Rightarrow> OSErr \<times> 'w state" where
  "FSClose E r s =
     (case os_FSClose E r (os s) of
        (e, w) \<Rightarrow> (e, record_call (FSClose_call r) e w s))"

definition GetVRefNum :: "'w env \<Rightarrow> 16 word \<Rightarrow> 'w state \<Rightarrow> (OSErr \<times> 16 word) \<times> 'w state" where
  "GetVRefNum E r s =
     (case os_GetVRefNum E r (os s) of
        ((e, v), w) \<Rightarrow> ((e, v), record_call (GetVRefNum_call r) e w s))"

definition FlushVol :: "'w env \<Rightarrow> 16 word \<Rightarrow> 'w state \<Rightarrow> OSErr \<times> 'w state" where
  "FlushVol E v s =
     (case os_FlushVol E v (os s) of
        (e, w) \<Rightarrow> (e, record_call (FlushVol_call v) e w s))"

subsection \<open>\<^verbatim>\<open>QTShortCut_WriteHandleToFile\<close> (lines 170 to 227)\<close>

text \<open>
  The local variables of the function (in the other function, whose \<open>myErr\<close> is a
  different variable, the model writes \<open>myErr0\<close>, \<open>myErr1\<close>, \<open>myErr2\<close> for its successive
  values). Each statement of the form
  \<^verbatim>\<open>if (myErr == noErr) myErr = Call(...);\<close> is \<open>whenOK\<close> applied to the call.
\<close>

record 'w locals =
  myErr :: OSErr
  myRefNum :: "16 word"
  myVolNum :: "16 word"
  mySize :: Size
  st :: "'w state"

definition whenOK :: "('w locals \<Rightarrow> 'w locals) \<Rightarrow> 'w locals \<Rightarrow> 'w locals" where
  "whenOK stmt f = (if myErr f = noErr then stmt f else f)"

definition stmt_FSpDelete :: "'w env \<Rightarrow> FSSpec \<Rightarrow> 'w locals \<Rightarrow> 'w locals" where
  "stmt_FSpDelete E spec f =
     (case FSpDelete E spec (st f) of (e, s) \<Rightarrow> f\<lparr>myErr := e, st := s\<rparr>)"

definition stmt_FSpCreate :: "'w env \<Rightarrow> FSSpec \<Rightarrow> 'w locals \<Rightarrow> 'w locals" where
  "stmt_FSpCreate E spec f =
     (case FSpCreate E spec (st f) of (e, s) \<Rightarrow> f\<lparr>myErr := e, st := s\<rparr>)"

definition stmt_FSpOpenDF :: "'w env \<Rightarrow> FSSpec \<Rightarrow> 'w locals \<Rightarrow> 'w locals" where
  "stmt_FSpOpenDF E spec f =
     (case FSpOpenDF E spec (st f) of ((e, r), s) \<Rightarrow> f\<lparr>myErr := e, myRefNum := r, st := s\<rparr>)"

definition stmt_SetFPos :: "'w env \<Rightarrow> ('w locals \<Rightarrow> Size) \<Rightarrow> 'w locals \<Rightarrow> 'w locals" where
  "stmt_SetFPos E off f =
     (case SetFPos E (myRefNum f) (off f) (st f) of (e, s) \<Rightarrow> f\<lparr>myErr := e, st := s\<rparr>)"

text \<open>\<^verbatim>\<open>FSWrite(myRefNum, &mySize, *theHandle)\<close>: the count comes back in \<open>mySize\<close>.\<close>

definition stmt_FSWrite :: "'w env \<Rightarrow> pointer \<Rightarrow> 'w locals \<Rightarrow> 'w locals" where
  "stmt_FSWrite E theHandle f =
     (case FSWrite E (myRefNum f) (mySize f) (block_bytes (heap (st f)) theHandle) (st f) of
        ((e, n), s) \<Rightarrow> f\<lparr>myErr := e, mySize := n, st := s\<rparr>)"

definition stmt_SetEOF :: "'w env \<Rightarrow> 'w locals \<Rightarrow> 'w locals" where
  "stmt_SetEOF E f =
     (case SetEOF E (myRefNum f) (mySize f) (st f) of (e, s) \<Rightarrow> f\<lparr>myErr := e, st := s\<rparr>)"

definition stmt_FSClose :: "'w env \<Rightarrow> 'w locals \<Rightarrow> 'w locals" where
  "stmt_FSClose E f =
     (case FSClose E (myRefNum f) (st f) of (e, s) \<Rightarrow> f\<lparr>myErr := e, st := s\<rparr>)"

definition stmt_GetVRefNum :: "'w env \<Rightarrow> 'w locals \<Rightarrow> 'w locals" where
  "stmt_GetVRefNum E f =
     (case GetVRefNum E (myRefNum f) (st f) of
        ((e, v), s) \<Rightarrow> f\<lparr>myErr := e, myVolNum := v, st := s\<rparr>)"

definition stmt_FlushVol :: "'w env \<Rightarrow> 'w locals \<Rightarrow> 'w locals" where
  "stmt_FlushVol E f =
     (case FlushVol E (myVolNum f) (st f) of (e, s) \<Rightarrow> f\<lparr>myErr := e, st := s\<rparr>)"

text \<open>
  The statements from \<^verbatim>\<open>HLock\<close> (line 184) to the label \<^verbatim>\<open>bail\<close>. The result of
  \<^verbatim>\<open>FSpDelete\<close> is assigned to \<open>myErr\<close> and overwritten by \<^verbatim>\<open>FSpCreate\<close>, which is
  not guarded; the two calls that flush the volume are compiled only under
  \<^verbatim>\<open>TARGET_OS_MAC\<close>.
\<close>

definition write_steps :: "'w env \<Rightarrow> pointer \<Rightarrow> FSSpec \<Rightarrow> 'w locals \<Rightarrow> 'w locals" where
  "write_steps E theHandle theFSSpecPtr f0 =
     (let f1 = stmt_FSpDelete E theFSSpecPtr f0;
          f2 = stmt_FSpCreate E theFSSpecPtr f1;
          f3 = whenOK (stmt_FSpOpenDF E theFSSpecPtr) f2;
          f4 = whenOK (stmt_SetFPos E (\<lambda>_. 0)) f3;
          f5 = whenOK (stmt_FSWrite E theHandle) f4;
          f6 = whenOK (stmt_SetFPos E mySize) f5;
          f7 = whenOK (stmt_SetEOF E) f6;
          f8 = whenOK (stmt_FSClose E) f7
      in if TARGET_OS_MAC E
         then whenOK (stmt_FlushVol E) (whenOK (stmt_GetVRefNum E) f8)
         else f8)"

definition QTShortCut_WriteHandleToFile ::
    "'w env \<Rightarrow> pointer \<Rightarrow> FSSpec \<Rightarrow> 'w state \<Rightarrow> OSErr \<times> 'w state" where
  "QTShortCut_WriteHandleToFile E theHandle theFSSpecPtr s =
     (if theHandle = None then (paramErr, HUnlock theHandle s)
      else if GetHandleSize theHandle s = 0 then (paramErr, HUnlock theHandle s)
      else
        let f = write_steps E theHandle theFSSpecPtr
                  \<lparr>myErr = paramErr, myRefNum = 0, myVolNum = 0,
                   mySize = GetHandleSize theHandle s, st = HLock theHandle s\<rparr>
        in (myErr f, HUnlock theHandle (st f)))"

subsection \<open>\<^verbatim>\<open>QTShortCut_CreateShortcutMovieFile\<close> (lines 71 to 159)\<close>

text \<open>
  Lines 106 to 140: the block that assembles the atoms. Its result says whether control
  falls through to the call of the writer (\<open>True\<close>) or leaves by \<^verbatim>\<open>goto bail\<close>, and
  gives \<open>myErr\<close>, \<open>myData\<close> and \<open>myMoovAtom\<close> at that point. The two allocation checks
  jump to \<^verbatim>\<open>bail\<close> without assigning \<open>myErr\<close>. \<open>myAtomHeaderSize\<close> is
  \<^verbatim>\<open>2 * sizeof(long)\<close>, and \<^verbatim>\<open>sizeof(OSType)\<close> is 4.
\<close>

text \<open>Lines 114 and 115: the two copies into \<open>myData\<close>.\<close>

definition copy_data_ref :: "byte list \<Rightarrow> pointer \<Rightarrow> pointer \<Rightarrow> 'w state \<Rightarrow> 'w state" where
  "copy_data_ref myDataRefType theDataRef myData s1 =
     (let s2 = BlockMove myDataRefType myData 0 4 s1
      in BlockMove (block_bytes (heap s2) theDataRef) myData 4
           (unat (GetHandleSize theDataRef s2)) s2)"

text \<open>Lines 130 to 135: the six stores into the block of \<open>myMoovAtom\<close>.\<close>

definition fill_atom_headers ::
    "'w env \<Rightarrow> Size \<Rightarrow> pointer \<Rightarrow> pointer \<Rightarrow> 'w state \<Rightarrow> 'w state" where
  "fill_atom_headers E myAtomHeaderSize myData myMoovAtom s4 =
     (let s5 = store_long myMoovAtom 0x00
                 (EndianU32_NtoB (3 * myAtomHeaderSize + GetPtrSize myData s4)) s4;
          s6 = store_long myMoovAtom 0x04 (EndianU32_NtoB (MovieAID E)) s5;
          s7 = store_long myMoovAtom 0x08
                 (EndianU32_NtoB (2 * myAtomHeaderSize + GetPtrSize myData s6)) s6;
          s8 = store_long myMoovAtom 0x0C (EndianU32_NtoB (MovieDataRefAliasAID E)) s7;
          s9 = store_long myMoovAtom 0x10
                 (EndianU32_NtoB (1 * myAtomHeaderSize + GetPtrSize myData s8)) s8
      in store_long myMoovAtom 0x14 (EndianU32_NtoB (DataRefAID E)) s9)"

definition build_atoms ::
    "'w env \<Rightarrow> OSErr \<Rightarrow> pointer \<Rightarrow> OSType \<Rightarrow> 'w state
       \<Rightarrow> (bool \<times> OSErr \<times> pointer \<times> pointer) \<times> 'w state" where
  "build_atoms E myErr0 theDataRef theDataRefType s0 =
     (case NewPtrClear E (4 + GetHandleSize theDataRef s0) s0 of
        (myData, s1) \<Rightarrow>
          if myData = None then ((False, myErr0, None, None), s1)
          else
            (case NewHandleClear E (3 * (2 * 4))
                    (copy_data_ref (EndianU32_NtoB theDataRefType) theDataRef myData s1) of
               (myMoovAtom, s4) \<Rightarrow>
                 if myMoovAtom = None then ((False, myErr0, myData, None), s4)
                 else
                   (case PtrAndHand E myData myMoovAtom
                           (GetPtrSize myData (fill_atom_headers E (2 * 4) myData myMoovAtom s4))
                           (fill_atom_headers E (2 * 4) myData myMoovAtom s4) of
                      (myErr1, s11) \<Rightarrow>
                        ((myErr1 = noErr, myErr1, myData, myMoovAtom), s11))))"

text \<open>The label \<^verbatim>\<open>bail\<close> (lines 150 to 158).\<close>

definition bail :: "OSErr \<Rightarrow> pointer \<Rightarrow> pointer \<Rightarrow> 'w state \<Rightarrow> OSErr \<times> 'w state" where
  "bail myErr0 myData myMoovAtom s =
     (let s1 = (if myData \<noteq> None then DisposePtr myData s else s);
          s2 = (if myMoovAtom \<noteq> None then DisposeHandle myMoovAtom s1 else s1)
      in (myErr0, s2))"

text \<open>
  The version test of line 80, on a signed \<^verbatim>\<open>long\<close>: an arithmetic shift, a mask and a
  signed comparison.
\<close>

definition has_CreateShortcutMovieFile :: "32 word \<Rightarrow> bool" where
  "has_CreateShortcutMovieFile myVersion \<longleftrightarrow>
     0x0400 \<le>s (signed_drop_bit 16 myVersion AND 0xffff)"

text \<open>
  The label \<^verbatim>\<open>bail\<close> stands inside the \<^verbatim>\<open>else\<close> block, after the declarations
  \<^verbatim>\<open>Ptr myData = NULL\<close> and \<^verbatim>\<open>Handle myMoovAtom = NULL\<close>. The \<^verbatim>\<open>goto\<close> of line 78
  enters the block without passing them, so the two variables hold whatever their stack
  slots held: the parameter \<open>uninit\<close> gives these two values. The branch for QuickTime 4
  does not pass through \<^verbatim>\<open>bail\<close>.
\<close>

definition QTShortCut_CreateShortcutMovieFile ::
    "'w env \<Rightarrow> pointer \<times> pointer \<Rightarrow> pointer \<Rightarrow> OSType \<Rightarrow> FSSpec \<Rightarrow> 'w state
       \<Rightarrow> OSErr \<times> 'w state" where
  "QTShortCut_CreateShortcutMovieFile E uninit theDataRef theDataRefType theFSSpecPtr s0 =
     (case Gestalt E s0 of
        ((myErr0, myVersion), s1) \<Rightarrow>
          if myErr0 \<noteq> noErr then bail myErr0 (fst uninit) (snd uninit) s1
          else if has_CreateShortcutMovieFile myVersion
          then CreateShortcutMovieFile E theFSSpecPtr theDataRef theDataRefType s1
          else
            (case build_atoms E myErr0 theDataRef theDataRefType s1 of
               ((falls_through, myErr1, myData, myMoovAtom), s2) \<Rightarrow>
                 if falls_through
                 then (case QTShortCut_WriteHandleToFile E myMoovAtom theFSSpecPtr s2 of
                         (myErr2, s3) \<Rightarrow> bail myErr2 myData myMoovAtom s3)
                 else bail myErr1 myData myMoovAtom s2))"

subsection \<open>A reference host\<close>

text \<open>
  One concrete environment, used to run the two functions: a File Manager over a table
  of files and a list of open data forks, following the calls' descriptions in Inside
  Macintosh as far as the two functions depend on them. Each call first consumes one
  entry of a schedule of injected failures (\<open>faults\<close>); an entry other than \<open>noErr\<close> makes
  the call fail with that code and no effect.
\<close>

record fm_file =
  fdata :: "byte list"
  fcreator :: OSType
  ftype :: OSType

record fm_world =
  qt_version :: "32 word"
  faults :: "OSErr list"
  files :: "FSSpec \<Rightarrow> fm_file option"
  forks :: "(16 word \<times> FSSpec \<times> nat) list"
  vref_reply :: "16 word \<Rightarrow> OSErr \<times> 16 word"

definition fm_fault :: "fm_world \<Rightarrow> OSErr \<times> fm_world" where
  "fm_fault w = (case faults w of [] \<Rightarrow> (noErr, w) | e # es \<Rightarrow> (e, w\<lparr>faults := es\<rparr>))"

definition fm_fork :: "fm_world \<Rightarrow> 16 word \<Rightarrow> (FSSpec \<times> nat) option" where
  "fm_fork w r = map_of (forks w) r"

definition fm_Gestalt :: "fm_world \<Rightarrow> (OSErr \<times> 32 word) \<times> fm_world" where
  "fm_Gestalt w = (case fm_fault w of (e, w1) \<Rightarrow> ((e, if e = noErr then qt_version w1 else 0), w1))"

text \<open>What QuickTime itself writes is not in the source: the reference host only answers.\<close>

definition fm_CreateShortcutMovieFile ::
    "FSSpec \<Rightarrow> OSType \<Rightarrow> byte list \<Rightarrow> OSType \<Rightarrow> fm_world \<Rightarrow> OSErr \<times> fm_world" where
  "fm_CreateShortcutMovieFile spec creator dataRef dataRefType w = fm_fault w"

definition fm_alloc :: "Size \<Rightarrow> fm_world \<Rightarrow> bool \<times> fm_world" where
  "fm_alloc n w = (case fm_fault w of (e, w1) \<Rightarrow> (e = noErr \<and> 0 \<le>s n, w1))"

definition fm_PtrAndHand :: "Size \<Rightarrow> fm_world \<Rightarrow> OSErr \<times> fm_world" where
  "fm_PtrAndHand n w =
     (case fm_fault w of (e, w1) \<Rightarrow>
        if e \<noteq> noErr then (e, w1)
        else if 0 \<le>s n then (noErr, w1) else (memFullErr, w1))"

definition fm_FSpDelete :: "FSSpec \<Rightarrow> fm_world \<Rightarrow> OSErr \<times> fm_world" where
  "fm_FSpDelete spec w =
     (case fm_fault w of (e, w1) \<Rightarrow>
        if e \<noteq> noErr then (e, w1)
        else if files w1 spec = None then (fnfErr, w1)
        else if spec \<in> set (map (\<lambda>k. fst (snd k)) (forks w1)) then (fBsyErr, w1)
        else (noErr, w1\<lparr>files := (files w1)(spec := None)\<rparr>))"

definition fm_FSpCreate :: "FSSpec \<Rightarrow> OSType \<Rightarrow> OSType \<Rightarrow> fm_world \<Rightarrow> OSErr \<times> fm_world" where
  "fm_FSpCreate spec creator ty w =
     (case fm_fault w of (e, w1) \<Rightarrow>
        if e \<noteq> noErr then (e, w1)
        else if files w1 spec \<noteq> None then (dupFNErr, w1)
        else (noErr, w1\<lparr>files := (files w1)
                (spec := Some \<lparr>fdata = [], fcreator = creator, ftype = ty\<rparr>)\<rparr>))"

definition fm_FSpOpenDF :: "FSSpec \<Rightarrow> fm_world \<Rightarrow> (OSErr \<times> 16 word) \<times> fm_world" where
  "fm_FSpOpenDF spec w =
     (case fm_fault w of (e, w1) \<Rightarrow>
        if e \<noteq> noErr then ((e, 0), w1)
        else if files w1 spec = None then ((fnfErr, 0), w1)
        else
          let r = word_of_nat (2 + length (forks w1))
          in ((noErr, r), w1\<lparr>forks := (r, spec, 0) # forks w1\<rparr>))"

definition fm_set_mark :: "16 word \<Rightarrow> nat \<Rightarrow> fm_world \<Rightarrow> fm_world" where
  "fm_set_mark r k w =
     (case fm_fork w r of None \<Rightarrow> w
      | Some (spec, _) \<Rightarrow> w\<lparr>forks := (r, spec, k) # forks w\<rparr>)"

definition fm_set_data :: "FSSpec \<Rightarrow> byte list \<Rightarrow> fm_world \<Rightarrow> fm_world" where
  "fm_set_data spec d w =
     (case files w spec of None \<Rightarrow> w
      | Some fl \<Rightarrow> w\<lparr>files := (files w)(spec := Some (fl\<lparr>fdata := d\<rparr>))\<rparr>)"

definition fm_SetFPos :: "16 word \<Rightarrow> Size \<Rightarrow> fm_world \<Rightarrow> OSErr \<times> fm_world" where
  "fm_SetFPos r off w =
     (case fm_fault w of (e, w1) \<Rightarrow>
        if e \<noteq> noErr then (e, w1)
        else
          (case fm_fork w1 r of None \<Rightarrow> (rfNumErr, w1)
           | Some (spec, _) \<Rightarrow>
               (case files w1 spec of None \<Rightarrow> (ioErr, w1)
                | Some fl \<Rightarrow>
                    if \<not> 0 \<le>s off then (posErr, w1)
                    else if length (fdata fl) < unat off
                    then (eofErr, fm_set_mark r (length (fdata fl)) w1)
                    else (noErr, fm_set_mark r (unat off) w1))))"

definition fm_FSWrite ::
    "16 word \<Rightarrow> Size \<Rightarrow> byte list \<Rightarrow> fm_world \<Rightarrow> (OSErr \<times> Size) \<times> fm_world" where
  "fm_FSWrite r n buf w =
     (case fm_fault w of (e, w1) \<Rightarrow>
        if e \<noteq> noErr then ((e, 0), w1)
        else
          (case fm_fork w1 r of None \<Rightarrow> ((rfNumErr, 0), w1)
           | Some (spec, mark) \<Rightarrow>
               (case files w1 spec of None \<Rightarrow> ((ioErr, 0), w1)
                | Some fl \<Rightarrow>
                    if \<not> 0 \<le>s n then ((paramErr, 0), w1)
                    else
                      let d = take mark (fdata fl) @ take (unat n) buf
                                @ drop (mark + unat n) (fdata fl)
                      in ((noErr, n), fm_set_mark r (mark + unat n) (fm_set_data spec d w1)))))"

definition fm_SetEOF :: "16 word \<Rightarrow> Size \<Rightarrow> fm_world \<Rightarrow> OSErr \<times> fm_world" where
  "fm_SetEOF r n w =
     (case fm_fault w of (e, w1) \<Rightarrow>
        if e \<noteq> noErr then (e, w1)
        else
          (case fm_fork w1 r of None \<Rightarrow> (rfNumErr, w1)
           | Some (spec, _) \<Rightarrow>
               (case files w1 spec of None \<Rightarrow> (ioErr, w1)
                | Some fl \<Rightarrow>
                    if \<not> 0 \<le>s n then (posErr, w1)
                    else (noErr, fm_set_data spec
                            (take (unat n) (fdata fl) @ replicate (unat n - length (fdata fl)) 0)
                            w1))))"

definition fm_FSClose :: "16 word \<Rightarrow> fm_world \<Rightarrow> OSErr \<times> fm_world" where
  "fm_FSClose r w =
     (case fm_fault w of (e, w1) \<Rightarrow>
        if e \<noteq> noErr then (e, w1)
        else
          (case fm_fork w1 r of None \<Rightarrow> (rfNumErr, w1)
           | Some _ \<Rightarrow> (noErr, w1\<lparr>forks := filter (\<lambda>k. fst k \<noteq> r) (forks w1)\<rparr>)))"

text \<open>
  The volume of a reference number is answered by the world (\<open>vref_reply\<close>): the
  function asks for it after \<^verbatim>\<open>FSClose\<close>, and the reference host takes no side on what the
  File Manager says about a closed file.
\<close>

definition fm_GetVRefNum :: "16 word \<Rightarrow> fm_world \<Rightarrow> (OSErr \<times> 16 word) \<times> fm_world" where
  "fm_GetVRefNum r w =
     (case fm_fault w of (e, w1) \<Rightarrow>
        if e \<noteq> noErr then ((e, 0), w1) else (vref_reply w1 r, w1))"

definition fm_FlushVol :: "16 word \<Rightarrow> fm_world \<Rightarrow> OSErr \<times> fm_world" where
  "fm_FlushVol v w = fm_fault w"

text \<open>
  The reference environment. The atom types are those of the QuickTime headers
  (\<^verbatim>\<open>'moov'\<close>, \<^verbatim>\<open>'mdra'\<close>, \<^verbatim>\<open>'dref'\<close>); creator and file type are \<^verbatim>\<open>'TVOD'\<close> and
  \<^verbatim>\<open>'MooV'\<close>.
\<close>

definition fm_env :: "bool \<Rightarrow> fm_world env" where
  "fm_env mac =
     \<lparr>MovieAID = 0x6D6F6F76, MovieDataRefAliasAID = 0x6D647261, DataRefAID = 0x64726566,
      kShortcutFileCreator = 0x54564F44, kShortcutFileType = 0x4D6F6F56,
      TARGET_OS_MAC = mac,
      os_Gestalt = fm_Gestalt,
      os_CreateShortcutMovieFile = fm_CreateShortcutMovieFile,
      os_NewPtrClear = fm_alloc,
      os_NewHandleClear = fm_alloc,
      os_PtrAndHand = fm_PtrAndHand,
      os_FSpDelete = fm_FSpDelete,
      os_FSpCreate = fm_FSpCreate,
      os_FSpOpenDF = fm_FSpOpenDF,
      os_SetFPos = fm_SetFPos,
      os_FSWrite = fm_FSWrite,
      os_SetEOF = fm_SetEOF,
      os_FSClose = fm_FSClose,
      os_GetVRefNum = fm_GetVRefNum,
      os_FlushVol = fm_FlushVol\<rparr>"

definition fm_world0 :: "32 word \<Rightarrow> OSErr list \<Rightarrow> fm_world" where
  "fm_world0 v fs =
     \<lparr>qt_version = v, faults = fs, files = (\<lambda>_. None), forks = [],
      vref_reply = (\<lambda>_. (noErr, - 1))\<rparr>"

definition state0 :: "memory \<Rightarrow> 'w \<Rightarrow> 'w state" where
  "state0 m w = \<lparr>heap = m, trace = [], os = w\<rparr>"

subsection \<open>The wire format, as the specification words it\<close>

text \<open>
  A big-endian unsigned 32-bit field holding \<open>n\<close>, and the reading of such a field at an
  offset of a buffer.
\<close>

definition be_u32 :: "nat \<Rightarrow> byte list" where
  "be_u32 n = [of_nat (n div 2 ^ 24), of_nat (n div 2 ^ 16), of_nat (n div 2 ^ 8), of_nat n]"

definition u32_at :: "byte list \<Rightarrow> nat \<Rightarrow> nat" where
  "u32_at buf off = foldl (\<lambda>a b. 256 * a + unat b) 0 (take 4 (drop off buf))"

text \<open>
  The layout of the specification's section on external interfaces, for a payload with
  type tag \<open>tag\<close> and \<open>N = length bytes\<close> bytes: three headers of size and type, the
  payload's tag, the payload.
\<close>

definition shortcut_layout :: "'w env \<Rightarrow> OSType \<Rightarrow> byte list \<Rightarrow> byte list" where
  "shortcut_layout E tag bytes =
     be_u32 (24 + length bytes + 4) @ be_u32 (unat (MovieAID E)) @
     be_u32 (16 + length bytes + 4) @ be_u32 (unat (MovieDataRefAliasAID E)) @
     be_u32 (8 + length bytes + 4) @ be_u32 (unat (DataRefAID E)) @
     be_u32 (unat tag) @ bytes"

subsection \<open>Auxiliary definitions\<close>

text \<open>
  What lines 110 to 115 leave in \<open>myData\<close>, and what lines 130 to 135 leave in the 24
  bytes of \<open>myMoovAtom\<close> when \<open>myData\<close> has size \<open>n\<close>; both in the 32-bit arithmetic of
  the source, for a payload of any length.
\<close>

definition atom_data :: "OSType \<Rightarrow> byte list \<Rightarrow> byte list" where
  "atom_data ty payload =
     poke (poke (replicate (unat (4 + word_of_nat (length payload) :: Size)) 0) 0
             (EndianU32_NtoB ty))
       4 (take (unat (word_of_nat (length payload) :: Size)) payload)"

definition atom_headers :: "'w env \<Rightarrow> Size \<Rightarrow> byte list" where
  "atom_headers E n =
     EndianU32_NtoB (24 + n) @ EndianU32_NtoB (MovieAID E) @
     EndianU32_NtoB (16 + n) @ EndianU32_NtoB (MovieDataRefAliasAID E) @
     EndianU32_NtoB (8 + n) @ EndianU32_NtoB (DataRefAID E)"

subsection \<open>Names of calls, and the order of the writer's calls\<close>

fun call_name :: "toolbox_call \<Rightarrow> string" where
  "call_name Gestalt_call = ''Gestalt''"
| "call_name (CreateShortcutMovieFile_call _) = ''CreateShortcutMovieFile''"
| "call_name (NewPtrClear_call _) = ''NewPtrClear''"
| "call_name (NewHandleClear_call _) = ''NewHandleClear''"
| "call_name (PtrAndHand_call _) = ''PtrAndHand''"
| "call_name (FSpDelete_call _) = ''FSpDelete''"
| "call_name (FSpCreate_call _) = ''FSpCreate''"
| "call_name (FSpOpenDF_call _) = ''FSpOpenDF''"
| "call_name (SetFPos_call _ _) = ''SetFPos''"
| "call_name (FSWrite_call _ _ _) = ''FSWrite''"
| "call_name (SetEOF_call _ _) = ''SetEOF''"
| "call_name (FSClose_call _) = ''FSClose''"
| "call_name (GetVRefNum_call _) = ''GetVRefNum''"
| "call_name (FlushVol_call _) = ''FlushVol''"

text \<open>The calls of lines 188 to 220 in program order; the last two only on the Macintosh.\<close>

definition writer_sequence :: "bool \<Rightarrow> string list" where
  "writer_sequence mac =
     [''FSpDelete'', ''FSpCreate'', ''FSpOpenDF'', ''SetFPos'', ''FSWrite'', ''SetFPos'',
      ''SetEOF'', ''FSClose''] @ (if mac then [''GetVRefNum'', ''FlushVol''] else [])"

text \<open>
  The invariant of the chain of guarded statements, after \<open>k\<close> of them: the calls made
  so far are the first ones of the sequence, every call between the first and the last one
  made answered \<open>noErr\<close>, \<open>myErr\<close> is the answer of the last one made, and if that is \<open>noErr\<close>
  all \<open>k\<close> were made.
\<close>

definition run_ok :: "string list \<Rightarrow> event list \<Rightarrow> nat \<Rightarrow> 'w locals \<Rightarrow> bool" where
  "run_ok sq t0 k f \<longleftrightarrow>
     (\<exists>T. trace (st f) = t0 @ T \<and> 2 \<le> length T \<and> length T \<le> k \<and>
          map (\<lambda>ev. call_name (fst ev)) T = take (length T) sq \<and>
          map snd (butlast (tl T)) = replicate (length T - 2) noErr \<and>
          myErr f = snd (last T) \<and>
          (myErr f = noErr \<longrightarrow> length T = k))"

text \<open>
  The part of the writer's local state that its result depends on: everything but the
  trace.
\<close>

definition core :: "'w locals \<Rightarrow> OSErr \<times> 16 word \<times> 16 word \<times> Size \<times> memory \<times> 'w" where
  "core f = (myErr f, myRefNum f, myVolNum f, mySize f, heap (st f), os (st f))"

section \<open>Properties\<close>

subsection \<open>Result codes, bytes and blocks\<close>

lemma err_neq_noErr [simp]:
  "ioErr \<noteq> noErr" "eofErr \<noteq> noErr" "posErr \<noteq> noErr" "fnfErr \<noteq> noErr" "fBsyErr \<noteq> noErr"
  "dupFNErr \<noteq> noErr" "paramErr \<noteq> noErr" "rfNumErr \<noteq> noErr" "memFullErr \<noteq> noErr"
  by (simp_all add: noErr_def ioErr_def eofErr_def posErr_def fnfErr_def fBsyErr_def dupFNErr_def
      paramErr_def rfNumErr_def memFullErr_def)

lemma length_EndianU32_NtoB [simp]: "length (EndianU32_NtoB x) = 4"
  by (simp add: EndianU32_NtoB_def)

lemma length_be_u32 [simp]: "length (be_u32 n) = 4"
  by (simp add: be_u32_def)

lemma length_poke [simp]: "length (poke c off bs) = length c"
  by (simp add: poke_def)

lemma EndianU32_NtoB_be_u32: "EndianU32_NtoB x = be_u32 (unat x)"
  by (simp add: EndianU32_NtoB_def be_u32_def word_unat_eq_iff unsigned_ucast_eq unat_drop_bit_eq
      unat_of_nat drop_bit_eq_div take_bit_eq_mod unat_div)

lemma u32_nat_split:
  fixes n :: nat
  assumes "n < 2 ^ 32"
  shows "256 * (256 * (256 * (n div 2 ^ 24 mod 256) + n div 2 ^ 16 mod 256) + n div 2 ^ 8 mod 256)
           + n mod 256 = n"
proof -
  have a: "n div 2 ^ 24 mod 256 = n div 2 ^ 24"
    using assms by (simp add: less_mult_imp_div_less)
  have b: "n div 2 ^ 16 = 256 * (n div 2 ^ 24) + n div 2 ^ 16 mod 256"
    using div_mult2_eq [of n "2 ^ 16" 256] by (simp add: mult.commute)
  have c: "n div 2 ^ 8 = 256 * (n div 2 ^ 16) + n div 2 ^ 8 mod 256"
    using div_mult2_eq [of n "2 ^ 8" 256] by (simp add: mult.commute)
  have d: "n = 256 * (n div 2 ^ 8) + n mod 256"
    by simp
  show ?thesis
    using a b c d by simp
qed

lemma u32_at_be_u32: "n < 2 ^ 32 \<Longrightarrow> u32_at (be_u32 n @ rest) 0 = n"
  using u32_nat_split [of n] by (simp add: u32_at_def be_u32_def unat_of_nat)

lemma u32_at_skip: "length xs = k \<Longrightarrow> u32_at (xs @ ys) (k + off) = u32_at ys off"
  by (simp add: u32_at_def)

lemma unat_size_exact: "n < 2 ^ 32 \<Longrightarrow> unat (word_of_nat n :: Size) = n"
  by (simp add: unat_of_nat)

lemma unat_size_plus: "k + n < 2 ^ 32 \<Longrightarrow> unat (word_of_nat k + word_of_nat n :: Size) = k + n"
  using unat_size_exact [of "k + n"] by simp

lemma deref_valid:
  "deref m p = Some b \<Longrightarrow> \<exists>a. p = Some a \<and> a < length m \<and> m ! a = Some b"
  by (auto simp: deref_def split: option.splits if_splits)

lemma block_bytes_valid: "deref m p = Some b \<Longrightarrow> block_bytes m p = contents b"
  by (simp add: block_bytes_def)

lemma update_block_last: "update_block (Some (length m)) g (m @ [Some b]) = m @ [Some (g b)]"
  by (simp add: update_block_def)

lemma update_block_last2:
  "update_block (Some (Suc (length m))) g (m @ [x, Some b]) = m @ [x, Some (g b)]"
  by (simp add: update_block_def nth_append list_update_append)

lemma block_bytes_last2: "block_bytes (m @ [x, Some b]) (Some (Suc (length m))) = contents b"
  by (simp add: block_bytes_def deref_def nth_append)

lemma block_bytes_first_of2: "block_bytes (m @ [Some b, y]) (Some (length m)) = contents b"
  by (simp add: block_bytes_def deref_def nth_append)

lemma heap_BlockMove:
  "heap (BlockMove src dst off n s) =
     update_block dst (\<lambda>b. b\<lparr>contents := poke (contents b) off (take n src)\<rparr>) (heap s)"
  by (simp add: BlockMove_def)

lemma heap_store_long:
  "heap (store_long h off (EndianU32_NtoB v) s) =
     update_block h (\<lambda>b. b\<lparr>contents := poke (contents b) off (EndianU32_NtoB v)\<rparr>) (heap s)"
  by (simp add: store_long_def BlockMove_def)

lemma NewPtrClear_granted:
  "NewPtrClear E n s = (p, s1) \<Longrightarrow> p \<noteq> None \<Longrightarrow>
     p = Some (length (heap s)) \<and>
     heap s1 = heap s @ [Some \<lparr>contents = replicate (unat n) 0, locked = False\<rparr>]"
  by (auto simp: NewPtrClear_def new_block_def record_call_def split: prod.splits if_splits)

lemma NewHandleClear_granted:
  "NewHandleClear E n s = (p, s1) \<Longrightarrow> p \<noteq> None \<Longrightarrow>
     p = Some (length (heap s)) \<and>
     heap s1 = heap s @ [Some \<lparr>contents = replicate (unat n) 0, locked = False\<rparr>]"
  by (auto simp: NewHandleClear_def new_block_def record_call_def split: prod.splits if_splits)

lemma PtrAndHand_noErr:
  "PtrAndHand E p h n s = (noErr, s1) \<Longrightarrow>
     heap s1 = update_block h
       (\<lambda>b. b\<lparr>contents := contents b @ take (unat n) (block_bytes (heap s) p)\<rparr>) (heap s)"
  by (auto simp: PtrAndHand_def record_call_def split: prod.splits if_splits)

subsection \<open>The buffer that \<open>build_atoms\<close> leaves in \<open>myMoovAtom\<close>\<close>

lemma six_stores:
  "poke (poke (poke (poke (poke (poke (replicate 24 0) 0 (EndianU32_NtoB a)) 4 (EndianU32_NtoB b))
      8 (EndianU32_NtoB c)) 12 (EndianU32_NtoB d)) 16 (EndianU32_NtoB e)) 20 (EndianU32_NtoB f)
   = EndianU32_NtoB a @ EndianU32_NtoB b @ EndianU32_NtoB c @ EndianU32_NtoB d
       @ EndianU32_NtoB e @ EndianU32_NtoB f"
  by (simp add: poke_def EndianU32_NtoB_def numeral_eq_Suc)

lemma heap_copy_data_ref:
  assumes "theDataRef = Some a" "a < length m0" "m0 ! a = Some b"
    and "heap s1 = m0 @ [Some \<lparr>contents =
            replicate (unat (4 + word_of_nat (length (contents b)) :: Size)) 0, locked = False\<rparr>]"
  shows "heap (copy_data_ref (EndianU32_NtoB ty) theDataRef (Some (length m0)) s1) =
           m0 @ [Some \<lparr>contents = atom_data ty (contents b), locked = False\<rparr>]"
  using assms
  by (simp add: copy_data_ref_def Let_def heap_BlockMove update_block_last GetHandleSize_def
      block_bytes_def deref_def nth_append atom_data_def)

lemma heap_fill_atom_headers:
  assumes "heap s4 = m0 @ [Some D, Some \<lparr>contents = replicate 24 0, locked = False\<rparr>]"
  shows "heap (fill_atom_headers E 8 (Some (length m0)) (Some (Suc (length m0))) s4) =
           m0 @ [Some D, Some \<lparr>contents = atom_headers E (word_of_nat (length (contents D))),
                                locked = False\<rparr>]"
  using assms
  by (simp add: fill_atom_headers_def Let_def heap_store_long update_block_last2 GetPtrSize_def
      block_bytes_first_of2 six_stores atom_headers_def)

lemma length_atom_data: "length (atom_data ty p) = unat (4 + word_of_nat (length p) :: Size)"
  by (simp add: atom_data_def)

lemma build_atoms_buffer:
  assumes v: "deref (heap s) theDataRef = Some b"
    and r: "build_atoms E e0 theDataRef ty s = ((True, e, d, m), s')"
  shows "block_bytes (heap s') m =
           atom_headers E (4 + word_of_nat (length (contents b))) @ atom_data ty (contents b)"
proof -
  obtain a where a: "theDataRef = Some a" "a < length (heap s)" "heap s ! a = Some b"
    using deref_valid [OF v] by blast
  define n :: Size where "n = 4 + word_of_nat (length (contents b))"
  have hs: "GetHandleSize theDataRef s = word_of_nat (length (contents b))"
    by (simp add: GetHandleSize_def block_bytes_valid [OF v])
  obtain s1 where s1: "NewPtrClear E n s = (d, s1)" "d \<noteq> None"
    using r by (auto simp: build_atoms_def hs n_def split: prod.splits if_splits)
  have d: "d = Some (length (heap s))"
    and h1: "heap s1 = heap s @ [Some \<lparr>contents = replicate (unat n) 0, locked = False\<rparr>]"
    using NewPtrClear_granted [OF s1] by simp_all
  define s3 where "s3 = copy_data_ref (EndianU32_NtoB ty) theDataRef d s1"
  have h3: "heap s3 = heap s @ [Some \<lparr>contents = atom_data ty (contents b), locked = False\<rparr>]"
    unfolding s3_def d using heap_copy_data_ref [OF a h1 [unfolded n_def]] .
  obtain s4 where s4: "NewHandleClear E 24 s3 = (m, s4)" "m \<noteq> None"
    using r s1 by (auto simp: build_atoms_def hs n_def s3_def split: prod.splits if_splits)
  have m: "m = Some (Suc (length (heap s)))"
    and h4: "heap s4 = heap s @ [Some \<lparr>contents = atom_data ty (contents b), locked = False\<rparr>,
                                 Some \<lparr>contents = replicate 24 0, locked = False\<rparr>]"
    using NewHandleClear_granted [OF s4] by (simp_all add: h3)
  define s10 where "s10 = fill_atom_headers E 8 d m s4"
  have h10: "heap s10 = heap s @ [Some \<lparr>contents = atom_data ty (contents b), locked = False\<rparr>,
                 Some \<lparr>contents = atom_headers E n, locked = False\<rparr>]"
    unfolding s10_def d m using heap_fill_atom_headers [OF h4, of E]
    by (simp add: length_atom_data n_def)
  have p: "PtrAndHand E d m (GetPtrSize d s10) s10 = (noErr, s')"
    using r s1 s4
    by (auto simp: build_atoms_def hs n_def s3_def s10_def split: prod.splits if_splits)
  show ?thesis
    using PtrAndHand_noErr [OF p]
    by (simp add: h10 d m update_block_last2 block_bytes_last2 block_bytes_first_of2
        GetPtrSize_def length_atom_data n_def)
qed

lemma atom_data_exact:
  assumes "length p + 4 < 2 ^ 32"
  shows "atom_data ty p = EndianU32_NtoB ty @ p"
proof -
  have 1: "unat (word_of_nat (length p) :: Size) = length p"
    using assms by (simp add: unat_size_exact)
  have 2: "unat (4 + word_of_nat (length p) :: Size) = 4 + length p"
    using unat_size_plus [of 4 "length p"] assms by simp
  have 3: "replicate (4 + length p) (0::byte) = replicate 4 0 @ replicate (length p) 0"
    by (simp add: replicate_add)
  show ?thesis
    by (simp add: atom_data_def 1 2 3 poke_def del: replicate_Suc)
qed

lemma atom_headers_exact:
  assumes "N + 28 < 2 ^ 32"
  shows "atom_headers E (4 + word_of_nat N) =
           be_u32 (24 + N + 4) @ be_u32 (unat (MovieAID E)) @
           be_u32 (16 + N + 4) @ be_u32 (unat (MovieDataRefAliasAID E)) @
           be_u32 (8 + N + 4) @ be_u32 (unat (DataRefAID E))"
proof -
  have 1: "unat (28 + word_of_nat N :: Size) = 28 + N"
    using unat_size_plus [of 28 N] assms by (simp add: add.commute)
  have 2: "unat (20 + word_of_nat N :: Size) = 20 + N"
    using unat_size_plus [of 20 N] assms by (simp add: add.commute)
  have 3: "unat (12 + word_of_nat N :: Size) = 12 + N"
    using unat_size_plus [of 12 N] assms by (simp add: add.commute)
  show ?thesis
    by (simp add: atom_headers_def EndianU32_NtoB_be_u32 1 2 3)
qed

lemma build_atoms_exact:
  assumes "deref (heap s) theDataRef = Some b"
    and "length (contents b) + 28 < 2 ^ 32"
    and "build_atoms E e0 theDataRef tag s = ((True, e, d, m), s')"
  shows "block_bytes (heap s') m = shortcut_layout E tag (contents b)"
  using build_atoms_buffer [OF assms(1) assms(3)] assms(2)
  by (simp add: atom_headers_exact atom_data_exact shortcut_layout_def EndianU32_NtoB_be_u32)

lemma os_BlockMove [simp]: "os (BlockMove src dst off n s) = os s"
  and trace_BlockMove [simp]: "trace (BlockMove src dst off n s) = trace s"
  by (simp_all add: BlockMove_def)

lemma os_copy_data_ref [simp]: "os (copy_data_ref t h d s) = os s"
  and trace_copy_data_ref [simp]: "trace (copy_data_ref t h d s) = trace s"
  by (simp_all add: copy_data_ref_def Let_def)

lemma os_fill_atom_headers [simp]: "os (fill_atom_headers E k d m s) = os s"
  and trace_fill_atom_headers [simp]: "trace (fill_atom_headers E k d m s) = trace s"
  by (simp_all add: fill_atom_headers_def store_long_def Let_def)

lemma NewPtrClear_eval:
  "os_NewPtrClear E n (os s) = (True, w) \<Longrightarrow>
   NewPtrClear E n s = (Some (length (heap s)),
     s\<lparr>heap := heap s @ [Some \<lparr>contents = replicate (unat n) 0, locked = False\<rparr>],
       trace := trace s @ [(NewPtrClear_call n, noErr)], os := w\<rparr>)"
  by (simp add: NewPtrClear_def new_block_def record_call_def)

lemma NewHandleClear_eval:
  "os_NewHandleClear E n (os s) = (True, w) \<Longrightarrow>
   NewHandleClear E n s = (Some (length (heap s)),
     s\<lparr>heap := heap s @ [Some \<lparr>contents = replicate (unat n) 0, locked = False\<rparr>],
       trace := trace s @ [(NewHandleClear_call n, noErr)], os := w\<rparr>)"
  by (simp add: NewHandleClear_def new_block_def record_call_def)

lemma PtrAndHand_eval:
  "os_PtrAndHand E n (os s) = (noErr, w) \<Longrightarrow>
   PtrAndHand E p h n s = (noErr,
     s\<lparr>heap := update_block h
          (\<lambda>b. b\<lparr>contents := contents b @ take (unat n) (block_bytes (heap s) p)\<rparr>) (heap s),
       trace := trace s @ [(PtrAndHand_call n, noErr)], os := w\<rparr>)"
  by (simp add: PtrAndHand_def record_call_def)

text \<open>When the host grants the three memory requests, the block falls through.\<close>

lemma build_atoms_granted:
  assumes v: "deref (heap s) theDataRef = Some b"
    and g1: "os_NewPtrClear E (4 + word_of_nat (length (contents b))) (os s) = (True, w1)"
    and g2: "os_NewHandleClear E 24 w1 = (True, w2)"
    and g3: "os_PtrAndHand E (4 + word_of_nat (length (contents b))) w2 = (noErr, w3)"
  shows "build_atoms E e0 theDataRef ty s =
           ((True, noErr, Some (length (heap s)), Some (Suc (length (heap s)))),
            \<lparr>heap = heap s @
               [Some \<lparr>contents = atom_data ty (contents b), locked = False\<rparr>,
                Some \<lparr>contents = atom_headers E (4 + word_of_nat (length (contents b)))
                                 @ atom_data ty (contents b), locked = False\<rparr>],
             trace = trace s @
               [(NewPtrClear_call (4 + word_of_nat (length (contents b))), noErr),
                (NewHandleClear_call 24, noErr),
                (PtrAndHand_call (4 + word_of_nat (length (contents b))), noErr)],
             os = w3\<rparr>)"
proof -
  obtain a where a: "theDataRef = Some a" "a < length (heap s)" "heap s ! a = Some b"
    using deref_valid [OF v] by blast
  define n :: Size where "n = 4 + word_of_nat (length (contents b))"
  define L where "L = length (heap s)"
  define s1 where "s1 = s\<lparr>heap := heap s @ [Some \<lparr>contents = replicate (unat n) 0, locked = False\<rparr>],
       trace := trace s @ [(NewPtrClear_call n, noErr)], os := w1\<rparr>"
  have hs: "GetHandleSize theDataRef s = word_of_nat (length (contents b))"
    by (simp add: GetHandleSize_def block_bytes_valid [OF v])
  have e1: "NewPtrClear E (4 + GetHandleSize theDataRef s) s = (Some L, s1)"
    using NewPtrClear_eval [OF g1] by (simp add: hs s1_def n_def L_def)
  define s3 where "s3 = copy_data_ref (EndianU32_NtoB ty) theDataRef (Some L) s1"
  have h3: "heap s3 = heap s @ [Some \<lparr>contents = atom_data ty (contents b), locked = False\<rparr>]"
    unfolding s3_def L_def
    by (rule heap_copy_data_ref [OF a]) (simp add: s1_def n_def)
  have o3: "os s3 = w1" "trace s3 = trace s @ [(NewPtrClear_call n, noErr)]"
    by (simp_all add: s3_def s1_def)
  define s4 where "s4 = s3\<lparr>heap := heap s3 @ [Some \<lparr>contents = replicate 24 0, locked = False\<rparr>],
       trace := trace s3 @ [(NewHandleClear_call 24, noErr)], os := w2\<rparr>"
  have e4: "NewHandleClear E 24 s3 = (Some (Suc L), s4)"
    using NewHandleClear_eval [of E 24 s3 w2] g2 by (simp add: o3 s4_def h3 L_def)
  define s10 where "s10 = fill_atom_headers E 8 (Some L) (Some (Suc L)) s4"
  have h10: "heap s10 = heap s @ [Some \<lparr>contents = atom_data ty (contents b), locked = False\<rparr>,
                 Some \<lparr>contents = atom_headers E n, locked = False\<rparr>]"
    unfolding s10_def L_def
    using heap_fill_atom_headers [of s4 "heap s" _ E]
    by (simp add: s4_def h3 length_atom_data n_def)
  have o10: "os s10 = w2"
    "trace s10 = trace s @ [(NewPtrClear_call n, noErr), (NewHandleClear_call 24, noErr)]"
    by (simp_all add: s10_def s4_def o3)
  have g10: "GetPtrSize (Some L) s10 = n"
    by (simp add: GetPtrSize_def h10 L_def block_bytes_first_of2 length_atom_data n_def)
  have e11: "PtrAndHand E (Some L) (Some (Suc L)) n s10 = (noErr,
     s10\<lparr>heap := update_block (Some (Suc L))
          (\<lambda>b. b\<lparr>contents := contents b @ take (unat n) (block_bytes (heap s10) (Some L))\<rparr>)
          (heap s10),
       trace := trace s10 @ [(PtrAndHand_call n, noErr)], os := w3\<rparr>)"
    using PtrAndHand_eval [of E n s10 w3] g3 by (simp add: o10 n_def)
  have "build_atoms E e0 theDataRef ty s = ((True, noErr, Some L, Some (Suc L)),
     s10\<lparr>heap := update_block (Some (Suc L))
          (\<lambda>b. b\<lparr>contents := contents b @ take (unat n) (block_bytes (heap s10) (Some L))\<rparr>)
          (heap s10),
       trace := trace s10 @ [(PtrAndHand_call n, noErr)], os := w3\<rparr>)"
    unfolding build_atoms_def e1
    by (simp add: s3_def [symmetric] e4 s10_def [symmetric] g10 e11)
  then show ?thesis
    by (simp add: h10 o10 L_def n_def update_block_last2 block_bytes_first_of2 length_atom_data)
qed

lemma build_atoms_noErr: "fst (build_atoms E e0 h ty s) = (True, e, d, m) \<Longrightarrow> e = noErr"
  by (auto simp: build_atoms_def split: prod.splits if_splits)

subsection \<open>The reference host grants memory when no failure is scheduled\<close>

lemma fm_alloc_granted:
  "0 \<le>s n \<Longrightarrow> faults w = [] \<Longrightarrow> fm_alloc n w = (True, w)"
  by (simp add: fm_alloc_def fm_fault_def)

lemma fm_PtrAndHand_granted:
  "0 \<le>s n \<Longrightarrow> faults w = [] \<Longrightarrow> fm_PtrAndHand n w = (noErr, w)"
  by (simp add: fm_PtrAndHand_def fm_fault_def)

lemma fm_env_sel [simp]:
  "os_NewPtrClear (fm_env mac) = fm_alloc"
  "os_NewHandleClear (fm_env mac) = fm_alloc"
  "os_PtrAndHand (fm_env mac) = fm_PtrAndHand"
  "MovieAID (fm_env mac) = 0x6D6F6F76"
  "MovieDataRefAliasAID (fm_env mac) = 0x6D647261"
  "DataRefAID (fm_env mac) = 0x64726566"
  "TARGET_OS_MAC (fm_env mac) = mac"
  by (simp_all add: fm_env_def)

subsection \<open>The layout of the buffer\<close>

text \<open>
  What the block leaves in \<open>myMoovAtom\<close> when it reaches the writer call, for a payload
  whose total size fits the size field.
\<close>

lemma layout_of_result:
  assumes "deref (heap s) theDataRef = Some b"
    and "length (contents b) + 28 < 2 ^ 32"
    and "fst (build_atoms E e0 theDataRef tag s) = (True, e, d, m)"
    and "buf = block_bytes (heap (snd (build_atoms E e0 theDataRef tag s))) m"
  shows "buf = be_u32 (24 + length (contents b) + 4) @ be_u32 (unat (MovieAID E)) @
               be_u32 (16 + length (contents b) + 4) @ be_u32 (unat (MovieDataRefAliasAID E)) @
               be_u32 (8 + length (contents b) + 4) @ be_u32 (unat (DataRefAID E)) @
               be_u32 (unat tag) @ contents b
       \<and> buf = shortcut_layout E tag (contents b)
       \<and> length buf = 28 + length (contents b)
       \<and> u32_at buf 0 = length buf
       \<and> u32_at buf 8 = u32_at buf 0 - 8
       \<and> u32_at buf 16 = u32_at buf 8 - 8
       \<and> drop (length buf - (4 + length (contents b))) buf = be_u32 (unat tag) @ contents b"
proof -
  define N where "N = length (contents b)"
  have r: "build_atoms E e0 theDataRef tag s =
             ((True, e, d, m), snd (build_atoms E e0 theDataRef tag s))"
    using assms(3) by (metis prod.collapse)
  have lay: "buf = shortcut_layout E tag (contents b)"
    using build_atoms_exact [OF assms(1) assms(2) r] assms(4) by simp
  have len: "length buf = 28 + N"
    by (simp add: lay shortcut_layout_def N_def)
  have s0: "u32_at buf 0 = 28 + N"
    using assms(2) u32_at_be_u32 [of "28 + N"]
    by (simp add: lay shortcut_layout_def N_def add.commute)
  have s8: "u32_at buf 8 = 20 + N"
    using assms(2) u32_at_be_u32 [of "20 + N"]
      u32_at_skip [of "be_u32 (24 + N + 4) @ be_u32 (unat (MovieAID E))" 8 _ 0]
    by (simp add: lay shortcut_layout_def N_def add.commute)
  have s16: "u32_at buf 16 = 12 + N"
    using assms(2) u32_at_be_u32 [of "12 + N"]
      u32_at_skip [of "be_u32 (24 + N + 4) @ be_u32 (unat (MovieAID E)) @
                       be_u32 (16 + N + 4) @ be_u32 (unat (MovieDataRefAliasAID E))" 16 _ 0]
    by (simp add: lay shortcut_layout_def N_def add.commute)
  have tl: "drop (length buf - (4 + N)) buf = be_u32 (unat tag) @ contents b"
    by (simp add: len) (simp add: lay shortcut_layout_def)
  show ?thesis
    using lay len s0 s8 s16 tl by (simp add: shortcut_layout_def N_def)
qed

text \<open>
  Claim C1. For every payload of \<open>N\<close> bytes with type tag \<open>tag\<close> whose total size
  \<open>28 + N\<close> fits the 32-bit size field, whenever the host grants the three memory requests
  of the block (\<^verbatim>\<open>NewPtrClear\<close>, \<^verbatim>\<open>NewHandleClear\<close>, \<^verbatim>\<open>PtrAndHand\<close>), the atom-building block
  reaches the writer call with \<open>myErr = noErr\<close> and hands it a buffer that is, byte for
  byte: the size \<open>24 + N + 4\<close> and the tag \<^verbatim>\<open>MovieAID\<close>, the size \<open>16 + N + 4\<close> and the tag
  \<^verbatim>\<open>MovieDataRefAliasAID\<close>, the size \<open>8 + N + 4\<close> and the tag \<^verbatim>\<open>DataRefAID\<close>, the payload's
  tag, and the payload, all big-endian. Read back, the first size is the length of the
  buffer, each inner size is 8 less than the one around it, and the last \<open>4 + N\<close> bytes
  are the tag followed by the payload.
\<close>

theorem build_atoms_layout:
  assumes v: "deref (heap s) theDataRef = Some b"
    and n: "length (contents b) + 28 < 2 ^ 32"
    and g1: "os_NewPtrClear E (4 + word_of_nat (length (contents b))) (os s) = (True, w1)"
    and g2: "os_NewHandleClear E 24 w1 = (True, w2)"
    and g3: "os_PtrAndHand E (4 + word_of_nat (length (contents b))) w2 = (noErr, w3)"
    and r: "r = build_atoms E e0 theDataRef tag s"
    and buf: "buf = block_bytes (heap (snd r)) (Some (Suc (length (heap s))))"
  shows "fst r = (True, noErr, Some (length (heap s)), Some (Suc (length (heap s))))
       \<and> buf = be_u32 (24 + length (contents b) + 4) @ be_u32 (unat (MovieAID E)) @
               be_u32 (16 + length (contents b) + 4) @ be_u32 (unat (MovieDataRefAliasAID E)) @
               be_u32 (8 + length (contents b) + 4) @ be_u32 (unat (DataRefAID E)) @
               be_u32 (unat tag) @ contents b
       \<and> buf = shortcut_layout E tag (contents b)
       \<and> length buf = 28 + length (contents b)
       \<and> u32_at buf 0 = length buf
       \<and> u32_at buf 8 = u32_at buf 0 - 8
       \<and> u32_at buf 16 = u32_at buf 8 - 8
       \<and> drop (length buf - (4 + length (contents b))) buf = be_u32 (unat tag) @ contents b"
proof -
  have f: "fst (build_atoms E e0 theDataRef tag s) =
             (True, noErr, Some (length (heap s)), Some (Suc (length (heap s))))"
    using build_atoms_granted [OF v g1 g2 g3, of e0 tag] by simp
  have b: "buf = block_bytes (heap (snd (build_atoms E e0 theDataRef tag s)))
                   (Some (Suc (length (heap s))))"
    using buf r by simp
  have fr: "fst r = (True, noErr, Some (length (heap s)), Some (Suc (length (heap s))))"
    using f r by simp
  show ?thesis
    by (rule conjI [OF fr layout_of_result [OF v n f b]])
qed

theorem build_atoms_layout_witness:
  "fst (build_atoms (fm_env False) noErr (Some 0) 0x616C6973
      (state0 [Some \<lparr>contents = [1, 2, 3], locked = False\<rparr>] (fm_world0 0x03FF0000 [])))
     = (True, noErr, Some 1, Some (Suc 1))
 \<and> block_bytes (heap (snd (build_atoms (fm_env False) noErr (Some 0) 0x616C6973
      (state0 [Some \<lparr>contents = [1, 2, 3], locked = False\<rparr>] (fm_world0 0x03FF0000 [])))))
     (Some (Suc 1))
   = [0, 0, 0, 31, 0x6D, 0x6F, 0x6F, 0x76, 0, 0, 0, 23, 0x6D, 0x64, 0x72, 0x61,
      0, 0, 0, 15, 0x64, 0x72, 0x65, 0x66, 0x61, 0x6C, 0x69, 0x73, 1, 2, 3]"
proof -
  define s where "s = state0 [Some \<lparr>contents = [1, 2, 3 :: byte], locked = False\<rparr>]
                        (fm_world0 0x03FF0000 [])"
  have v: "deref (heap s) (Some 0) = Some \<lparr>contents = [1, 2, 3], locked = False\<rparr>"
    by (simp add: s_def state0_def deref_def)
  have n: "length (contents \<lparr>contents = [1, 2, 3 :: byte], locked = False\<rparr>) + 28 < 2 ^ 32"
    by simp
  have g: "os_NewPtrClear (fm_env False)
             (4 + word_of_nat (length (contents \<lparr>contents = [1, 2, 3 :: byte], locked = False\<rparr>)))
             (os s) = (True, os s)"
    "os_NewHandleClear (fm_env False) 24 (os s) = (True, os s)"
    "os_PtrAndHand (fm_env False)
             (4 + word_of_nat (length (contents \<lparr>contents = [1, 2, 3 :: byte], locked = False\<rparr>)))
             (os s) = (noErr, os s)"
    by (simp_all add: fm_alloc_granted fm_PtrAndHand_granted word_sle_eq s_def state0_def
        fm_world0_def)
  note t = build_atoms_layout [OF v n g refl refl, where ?e0.0 = noErr and tag = "0x616C6973"]
  have 1: "fst (build_atoms (fm_env False) noErr (Some 0) 0x616C6973 s)
             = (True, noErr, Some 1, Some (Suc 1))"
    using t [THEN conjunct1] by (simp add: s_def state0_def)
  have 2: "block_bytes (heap (snd (build_atoms (fm_env False) noErr (Some 0) 0x616C6973 s)))
             (Some (Suc 1))
           = [0, 0, 0, 31, 0x6D, 0x6F, 0x6F, 0x76, 0, 0, 0, 23, 0x6D, 0x64, 0x72, 0x61,
              0, 0, 0, 15, 0x64, 0x72, 0x65, 0x66, 0x61, 0x6C, 0x69, 0x73, 1, 2, 3]"
    using t [THEN conjunct2, THEN conjunct1] by (simp add: s_def state0_def be_u32_def)
  show ?thesis
    using 1 2 unfolding s_def by (intro conjI)
qed

subsection \<open>Evaluation on the reference host\<close>

lemmas fm_defs = fm_env_def state0_def fm_world0_def fm_alloc_def fm_PtrAndHand_def fm_fault_def
  fm_Gestalt_def fm_CreateShortcutMovieFile_def fm_FSpDelete_def fm_FSpCreate_def fm_FSpOpenDF_def
  fm_SetFPos_def fm_FSWrite_def fm_SetEOF_def fm_FSClose_def fm_GetVRefNum_def fm_FlushVol_def
  fm_fork_def fm_set_mark_def fm_set_data_def word_sle_eq

lemmas call_defs = FSpDelete_def FSpCreate_def FSpOpenDF_def SetFPos_def FSWrite_def SetEOF_def
  FSClose_def GetVRefNum_def FlushVol_def record_call_def

lemmas stmt_defs = whenOK_def stmt_FSpDelete_def stmt_FSpCreate_def stmt_FSpOpenDF_def
  stmt_SetFPos_def stmt_FSWrite_def stmt_SetEOF_def stmt_FSClose_def stmt_GetVRefNum_def
  stmt_FlushVol_def

lemmas writer_defs = QTShortCut_WriteHandleToFile_def write_steps_def Let_def
  GetHandleSize_def block_bytes_def deref_def HLock_def HUnlock_def update_block_def

lemma manual_path:
  assumes "os_Gestalt E (os s) = ((noErr, v), w)" and "\<not> has_CreateShortcutMovieFile v"
  shows "QTShortCut_CreateShortcutMovieFile E u h ty spec s =
     (case build_atoms E noErr h ty (record_call Gestalt_call noErr w s) of
        ((falls_through, e1, d, m), s2) \<Rightarrow>
           if falls_through
           then (case QTShortCut_WriteHandleToFile E m spec s2 of (e2, s3) \<Rightarrow> bail e2 d m s3)
           else bail e1 d m s2)"
  using assms by (simp add: QTShortCut_CreateShortcutMovieFile_def Gestalt_def)

subsection \<open>The empty payload\<close>

text \<open>
  Claim C6. For the empty payload with type tag \<^verbatim>\<open>'alis'\<close> (\<open>0x616C6973\<close>), whenever the host
  grants the three memory requests, the atom-building block falls through to the writer
  with \<open>myErr = noErr\<close> and a buffer of exactly 28 bytes: size \<open>0x1C\<close> and \<^verbatim>\<open>MovieAID\<close>, size
  \<open>0x14\<close> and \<^verbatim>\<open>MovieDataRefAliasAID\<close>, size \<open>0x0C\<close> and \<^verbatim>\<open>DataRefAID\<close>, then the four bytes
  of \<^verbatim>\<open>'alis'\<close>. An empty payload is not an error, and the writer's size check sees 28.
\<close>

theorem empty_alis_payload:
  assumes v: "deref (heap s) theDataRef = Some b" and e: "contents b = []"
    and g1: "os_NewPtrClear E 4 (os s) = (True, w1)"
    and g2: "os_NewHandleClear E 24 w1 = (True, w2)"
    and g3: "os_PtrAndHand E 4 w2 = (noErr, w3)"
    and r: "r = build_atoms E noErr theDataRef 0x616C6973 s"
  shows "fst r = (True, noErr, Some (length (heap s)), Some (Suc (length (heap s))))
       \<and> block_bytes (heap (snd r)) (Some (Suc (length (heap s)))) =
           [0, 0, 0, 0x1C] @ EndianU32_NtoB (MovieAID E) @
           [0, 0, 0, 0x14] @ EndianU32_NtoB (MovieDataRefAliasAID E) @
           [0, 0, 0, 0x0C] @ EndianU32_NtoB (DataRefAID E) @
           [0x61, 0x6C, 0x69, 0x73]
       \<and> length (block_bytes (heap (snd r)) (Some (Suc (length (heap s))))) = 28
       \<and> GetHandleSize (Some (Suc (length (heap s)))) (snd r) = 28"
  using build_atoms_granted [OF v, where E = E and ?w1.0 = w1 and ?w2.0 = w2 and ?w3.0 = w3
      and ?e0.0 = noErr and ty = "0x616C6973"] g1 g2 g3
  by (simp add: e r block_bytes_last2 GetHandleSize_def atom_headers_def atom_data_exact)
     (simp add: EndianU32_NtoB_def)

theorem empty_alis_payload_witness:
  "fst (build_atoms (fm_env False) noErr (Some 0) 0x616C6973
      (state0 [Some \<lparr>contents = [], locked = False\<rparr>] (fm_world0 0x03FF0000 [])))
     = (True, noErr, Some 1, Some (Suc 1))
   \<and> block_bytes (heap (snd (build_atoms (fm_env False) noErr (Some 0) 0x616C6973
      (state0 [Some \<lparr>contents = [], locked = False\<rparr>] (fm_world0 0x03FF0000 [])))))
     (Some (Suc 1))
     = [0, 0, 0, 0x1C, 0x6D, 0x6F, 0x6F, 0x76, 0, 0, 0, 0x14, 0x6D, 0x64, 0x72, 0x61,
        0, 0, 0, 0x0C, 0x64, 0x72, 0x65, 0x66, 0x61, 0x6C, 0x69, 0x73]"
proof -
  define s where "s = state0 [Some \<lparr>contents = ([] :: byte list), locked = False\<rparr>]
                        (fm_world0 0x03FF0000 [])"
  have v: "deref (heap s) (Some 0) = Some \<lparr>contents = [], locked = False\<rparr>"
    by (simp add: s_def state0_def deref_def)
  have g: "os_NewPtrClear (fm_env False) 4 (os s) = (True, os s)"
    "os_NewHandleClear (fm_env False) 24 (os s) = (True, os s)"
    "os_PtrAndHand (fm_env False) 4 (os s) = (noErr, os s)"
    by (simp_all add: fm_alloc_granted fm_PtrAndHand_granted word_sle_eq s_def state0_def
        fm_world0_def)
  show ?thesis
    using empty_alis_payload [OF v _ g refl]
    by (simp add: s_def [symmetric]) (simp add: s_def state0_def EndianU32_NtoB_def)
qed

subsection \<open>The size fields are never wrapped\<close>



subsection \<open>The statements of the writer\<close>

lemma stmt_FSpDelete_sel:
  "myErr (stmt_FSpDelete E spec f) = fst (os_FSpDelete E spec (os (st f)))"
  "os (st (stmt_FSpDelete E spec f)) = snd (os_FSpDelete E spec (os (st f)))"
  "heap (st (stmt_FSpDelete E spec f)) = heap (st f)"
  "trace (st (stmt_FSpDelete E spec f)) = trace (st f) @ [(FSpDelete_call spec, fst (os_FSpDelete E spec (os (st f))))]"
  "myRefNum (stmt_FSpDelete E spec f) = myRefNum f"
  "mySize (stmt_FSpDelete E spec f) = mySize f"
  "myVolNum (stmt_FSpDelete E spec f) = myVolNum f"
  by (simp_all add: stmt_FSpDelete_def FSpDelete_def record_call_def split: prod.splits)

lemma stmt_FSpCreate_sel:
  "myErr (stmt_FSpCreate E spec f) = fst (os_FSpCreate E spec (kShortcutFileCreator E) (kShortcutFileType E) (os (st f)))"
  "os (st (stmt_FSpCreate E spec f)) = snd (os_FSpCreate E spec (kShortcutFileCreator E) (kShortcutFileType E) (os (st f)))"
  "heap (st (stmt_FSpCreate E spec f)) = heap (st f)"
  "trace (st (stmt_FSpCreate E spec f)) = trace (st f) @ [(FSpCreate_call spec, fst (os_FSpCreate E spec (kShortcutFileCreator E) (kShortcutFileType E) (os (st f))))]"
  "myRefNum (stmt_FSpCreate E spec f) = myRefNum f"
  "mySize (stmt_FSpCreate E spec f) = mySize f"
  "myVolNum (stmt_FSpCreate E spec f) = myVolNum f"
  by (simp_all add: stmt_FSpCreate_def FSpCreate_def record_call_def split: prod.splits)

lemma stmt_FSpOpenDF_sel:
  "myErr (stmt_FSpOpenDF E spec f) = fst (fst (os_FSpOpenDF E spec (os (st f))))"
  "os (st (stmt_FSpOpenDF E spec f)) = snd (os_FSpOpenDF E spec (os (st f)))"
  "heap (st (stmt_FSpOpenDF E spec f)) = heap (st f)"
  "trace (st (stmt_FSpOpenDF E spec f)) = trace (st f) @ [(FSpOpenDF_call spec, fst (fst (os_FSpOpenDF E spec (os (st f)))))]"
  "myRefNum (stmt_FSpOpenDF E spec f) = snd (fst (os_FSpOpenDF E spec (os (st f))))"
  "mySize (stmt_FSpOpenDF E spec f) = mySize f"
  "myVolNum (stmt_FSpOpenDF E spec f) = myVolNum f"
  by (simp_all add: stmt_FSpOpenDF_def FSpOpenDF_def record_call_def split: prod.splits)

lemma stmt_SetFPos_sel:
  "myErr (stmt_SetFPos E off f) = fst (os_SetFPos E (myRefNum f) (off f) (os (st f)))"
  "os (st (stmt_SetFPos E off f)) = snd (os_SetFPos E (myRefNum f) (off f) (os (st f)))"
  "heap (st (stmt_SetFPos E off f)) = heap (st f)"
  "trace (st (stmt_SetFPos E off f)) = trace (st f) @ [(SetFPos_call (myRefNum f) (off f), fst (os_SetFPos E (myRefNum f) (off f) (os (st f))))]"
  "myRefNum (stmt_SetFPos E off f) = myRefNum f"
  "mySize (stmt_SetFPos E off f) = mySize f"
  "myVolNum (stmt_SetFPos E off f) = myVolNum f"
  by (simp_all add: stmt_SetFPos_def SetFPos_def record_call_def split: prod.splits)

lemma stmt_FSWrite_sel:
  "myErr (stmt_FSWrite E h f) = fst (fst (os_FSWrite E (myRefNum f) (mySize f) (block_bytes (heap (st f)) h) (os (st f))))"
  "os (st (stmt_FSWrite E h f)) = snd (os_FSWrite E (myRefNum f) (mySize f) (block_bytes (heap (st f)) h) (os (st f)))"
  "heap (st (stmt_FSWrite E h f)) = heap (st f)"
  "trace (st (stmt_FSWrite E h f)) = trace (st f) @ [(FSWrite_call (myRefNum f) (mySize f) (block_bytes (heap (st f)) h), fst (fst (os_FSWrite E (myRefNum f) (mySize f) (block_bytes (heap (st f)) h) (os (st f)))))]"
  "myRefNum (stmt_FSWrite E h f) = myRefNum f"
  "mySize (stmt_FSWrite E h f) = snd (fst (os_FSWrite E (myRefNum f) (mySize f) (block_bytes (heap (st f)) h) (os (st f))))"
  "myVolNum (stmt_FSWrite E h f) = myVolNum f"
  by (simp_all add: stmt_FSWrite_def FSWrite_def record_call_def split: prod.splits)

lemma stmt_SetEOF_sel:
  "myErr (stmt_SetEOF E f) = fst (os_SetEOF E (myRefNum f) (mySize f) (os (st f)))"
  "os (st (stmt_SetEOF E f)) = snd (os_SetEOF E (myRefNum f) (mySize f) (os (st f)))"
  "heap (st (stmt_SetEOF E f)) = heap (st f)"
  "trace (st (stmt_SetEOF E f)) = trace (st f) @ [(SetEOF_call (myRefNum f) (mySize f), fst (os_SetEOF E (myRefNum f) (mySize f) (os (st f))))]"
  "myRefNum (stmt_SetEOF E f) = myRefNum f"
  "mySize (stmt_SetEOF E f) = mySize f"
  "myVolNum (stmt_SetEOF E f) = myVolNum f"
  by (simp_all add: stmt_SetEOF_def SetEOF_def record_call_def split: prod.splits)

lemma stmt_FSClose_sel:
  "myErr (stmt_FSClose E f) = fst (os_FSClose E (myRefNum f) (os (st f)))"
  "os (st (stmt_FSClose E f)) = snd (os_FSClose E (myRefNum f) (os (st f)))"
  "heap (st (stmt_FSClose E f)) = heap (st f)"
  "trace (st (stmt_FSClose E f)) = trace (st f) @ [(FSClose_call (myRefNum f), fst (os_FSClose E (myRefNum f) (os (st f))))]"
  "myRefNum (stmt_FSClose E f) = myRefNum f"
  "mySize (stmt_FSClose E f) = mySize f"
  "myVolNum (stmt_FSClose E f) = myVolNum f"
  by (simp_all add: stmt_FSClose_def FSClose_def record_call_def split: prod.splits)

lemma stmt_GetVRefNum_sel:
  "myErr (stmt_GetVRefNum E f) = fst (fst (os_GetVRefNum E (myRefNum f) (os (st f))))"
  "os (st (stmt_GetVRefNum E f)) = snd (os_GetVRefNum E (myRefNum f) (os (st f)))"
  "heap (st (stmt_GetVRefNum E f)) = heap (st f)"
  "trace (st (stmt_GetVRefNum E f)) = trace (st f) @ [(GetVRefNum_call (myRefNum f), fst (fst (os_GetVRefNum E (myRefNum f) (os (st f)))))]"
  "myRefNum (stmt_GetVRefNum E f) = myRefNum f"
  "mySize (stmt_GetVRefNum E f) = mySize f"
  "myVolNum (stmt_GetVRefNum E f) = snd (fst (os_GetVRefNum E (myRefNum f) (os (st f))))"
  by (simp_all add: stmt_GetVRefNum_def GetVRefNum_def record_call_def split: prod.splits)

lemma stmt_FlushVol_sel:
  "myErr (stmt_FlushVol E f) = fst (os_FlushVol E (myVolNum f) (os (st f)))"
  "os (st (stmt_FlushVol E f)) = snd (os_FlushVol E (myVolNum f) (os (st f)))"
  "heap (st (stmt_FlushVol E f)) = heap (st f)"
  "trace (st (stmt_FlushVol E f)) = trace (st f) @ [(FlushVol_call (myVolNum f), fst (os_FlushVol E (myVolNum f) (os (st f))))]"
  "myRefNum (stmt_FlushVol E f) = myRefNum f"
  "mySize (stmt_FlushVol E f) = mySize f"
  "myVolNum (stmt_FlushVol E f) = myVolNum f"
  by (simp_all add: stmt_FlushVol_def FlushVol_def record_call_def split: prod.splits)

lemma whenOK_skip: "myErr f \<noteq> noErr \<Longrightarrow> whenOK stmt f = f"
  and whenOK_run: "myErr f = noErr \<Longrightarrow> whenOK stmt f = stmt f"
  by (simp_all add: whenOK_def)

lemma run_ok_step:
  assumes inv: "run_ok sq t0 k f" and k: "k < length sq" "2 \<le> k"
    and stmt: "\<And>g. \<exists>c. trace (st (stmt g)) = trace (st g) @ [(c, myErr (stmt g))]
                          \<and> call_name c = sq ! k"
  shows "run_ok sq t0 (Suc k) (whenOK stmt f)"
proof (cases "myErr f = noErr")
  case False
  then show ?thesis
    using inv by (auto simp: whenOK_skip run_ok_def)
next
  case True
  obtain T where T: "trace (st f) = t0 @ T" "2 \<le> length T" "length T = k"
    "map (\<lambda>ev. call_name (fst ev)) T = take (length T) sq"
    "map snd (butlast (tl T)) = replicate (length T - 2) noErr"
    "myErr f = snd (last T)"
    using inv True by (auto simp: run_ok_def)
  obtain c where c: "trace (st (stmt f)) = trace (st f) @ [(c, myErr (stmt f))]"
    "call_name c = sq ! k"
    using stmt [of f] by blast
  define T' where "T' = T @ [(c, myErr (stmt f))]"
  have ne: "T \<noteq> []" "tl T \<noteq> []"
    using T(2) by (cases T; cases "tl T"; simp)+
  have 1: "trace (st (stmt f)) = t0 @ T'"
    by (simp add: c T T'_def)
  have 2: "map (\<lambda>ev. call_name (fst ev)) T' = take (length T') sq"
    using T(3,4) k c(2) by (simp add: T'_def take_Suc_conv_app_nth)
  have 3: "butlast (tl T') = tl T"
    using ne by (simp add: T'_def)
  have 4: "map snd (tl T) = replicate (length T' - 2) noErr"
  proof -
    have "tl T = butlast (tl T) @ [last T]"
      using ne by (metis append_butlast_last_id last_tl)
    then have "map snd (tl T) = map snd (butlast (tl T)) @ [snd (last T)]"
      by (metis list.simps(8,9) map_append)
    also have "\<dots> = replicate (length T - 2) noErr @ [noErr]"
      using T(5,6) True by simp
    also have "\<dots> = replicate (Suc (length T - 2)) noErr"
      by (simp add: replicate_append_same)
    also have "Suc (length T - 2) = length T' - 2"
      using T(2) by (simp add: T'_def)
    finally show ?thesis .
  qed
  show ?thesis
    unfolding run_ok_def whenOK_run [OF True]
    apply (rule exI [of _ T'])
    using 1 2 3 4 T(2,3) by (simp add: T'_def)
qed


lemma run_ok_base:
  "run_ok (writer_sequence mac) (trace (st f0)) 2
     (stmt_FSpCreate E spec (stmt_FSpDelete E spec f0))"
  unfolding run_ok_def
  apply (rule exI [of _ "[(FSpDelete_call spec, myErr (stmt_FSpDelete E spec f0)),
      (FSpCreate_call spec, myErr (stmt_FSpCreate E spec (stmt_FSpDelete E spec f0)))]"])
  apply (simp add: stmt_FSpCreate_sel(4) stmt_FSpDelete_sel(4) writer_sequence_def)
  apply (simp add: stmt_FSpCreate_sel(1) stmt_FSpDelete_sel(1,2))
  done

lemma write_steps_run_ok:
  "run_ok (writer_sequence (TARGET_OS_MAC E)) (trace (st f0))
     (length (writer_sequence (TARGET_OS_MAC E))) (write_steps E h spec f0)"
proof -
  define sq where "sq = writer_sequence (TARGET_OS_MAC E)"
  define t0 where "t0 = trace (st f0)"
  define f2 where "f2 = stmt_FSpCreate E spec (stmt_FSpDelete E spec f0)"
  define f3 where "f3 = whenOK (stmt_FSpOpenDF E spec) f2"
  define f4 where "f4 = whenOK (stmt_SetFPos E (\<lambda>_. 0)) f3"
  define f5 where "f5 = whenOK (stmt_FSWrite E h) f4"
  define f6 where "f6 = whenOK (stmt_SetFPos E mySize) f5"
  define f7 where "f7 = whenOK (stmt_SetEOF E) f6"
  define f8 where "f8 = whenOK (stmt_FSClose E) f7"
  have len: "8 \<le> length sq"
    and nth: "sq ! 2 = ''FSpOpenDF''" "sq ! 3 = ''SetFPos''" "sq ! 4 = ''FSWrite''"
      "sq ! 5 = ''SetFPos''" "sq ! 6 = ''SetEOF''" "sq ! 7 = ''FSClose''"
    by (simp_all add: sq_def writer_sequence_def)
  have r2: "run_ok sq t0 2 f2"
    unfolding sq_def t0_def f2_def by (rule run_ok_base)
  have r3: "run_ok sq t0 3 f3"
    unfolding f3_def using run_ok_step [OF r2, of "stmt_FSpOpenDF E spec"] len nth
    by (simp add: stmt_FSpOpenDF_sel(1,4))
  have r4: "run_ok sq t0 4 f4"
    unfolding f4_def using run_ok_step [OF r3, of "stmt_SetFPos E (\<lambda>_. 0)"] len nth
    by (simp add: stmt_SetFPos_sel(1,4))
  have r5: "run_ok sq t0 5 f5"
    unfolding f5_def using run_ok_step [OF r4, of "stmt_FSWrite E h"] len nth
    by (simp add: stmt_FSWrite_sel(1,4))
  have r6: "run_ok sq t0 6 f6"
    unfolding f6_def using run_ok_step [OF r5, of "stmt_SetFPos E mySize"] len nth
    by (simp add: stmt_SetFPos_sel(1,4))
  have r7: "run_ok sq t0 7 f7"
    unfolding f7_def using run_ok_step [OF r6, of "stmt_SetEOF E"] len nth
    by (simp add: stmt_SetEOF_sel(1,4))
  have r8: "run_ok sq t0 8 f8"
    unfolding f8_def using run_ok_step [OF r7, of "stmt_FSClose E"] len nth
    by (simp add: stmt_FSClose_sel(1,4))
  have ws: "write_steps E h spec f0 =
      (if TARGET_OS_MAC E then whenOK (stmt_FlushVol E) (whenOK (stmt_GetVRefNum E) f8) else f8)"
    by (simp add: write_steps_def Let_def f8_def f7_def f6_def f5_def f4_def f3_def f2_def)
  have "run_ok sq t0 (length sq) (write_steps E h spec f0)"
  proof (cases "TARGET_OS_MAC E")
    case False
    then have "length sq = 8"
      by (simp add: sq_def writer_sequence_def)
    then show ?thesis
      using r8 False by (simp add: ws)
  next
    case True
    then have l: "length sq = 10" "sq ! 8 = ''GetVRefNum''" "sq ! 9 = ''FlushVol''"
      by (simp_all add: sq_def writer_sequence_def)
    have r9: "run_ok sq t0 9 (whenOK (stmt_GetVRefNum E) f8)"
      using run_ok_step [OF r8, of "stmt_GetVRefNum E"] l
      by (simp add: stmt_GetVRefNum_sel(1,4))
    have r10: "run_ok sq t0 10 (whenOK (stmt_FlushVol E) (whenOK (stmt_GetVRefNum E) f8))"
      using run_ok_step [OF r9, of "stmt_FlushVol E"] l
      by (simp add: stmt_FlushVol_sel(1,4))
    show ?thesis
      using r10 True l by (simp add: ws)
  qed
  then show ?thesis
    by (simp add: sq_def t0_def)
qed

lemma trace_HLock [simp]: "trace (HLock h s) = trace s"
  and os_HLock [simp]: "os (HLock h s) = os s"
  and trace_HUnlock [simp]: "trace (HUnlock h s) = trace s"
  and os_HUnlock [simp]: "os (HUnlock h s) = os s"
  by (simp_all add: HLock_def HUnlock_def)


subsection \<open>The reference File Manager\<close>

lemma size_exact31: "n < 2 ^ 31 \<Longrightarrow> unat (word_of_nat n :: Size) = n"
  by (rule unat_size_exact) simp

lemma size_pos: "0 < n \<Longrightarrow> n < 2 ^ 31 \<Longrightarrow> (word_of_nat n :: Size) \<noteq> 0"
  using size_exact31 [of n] by (auto simp: unat_eq_0 [symmetric] simp del: unat_eq_0)

lemma size_nonneg: "n < 2 ^ 31 \<Longrightarrow> 0 \<le>s (word_of_nat n :: Size)"
  by (simp add: word_sle_eq signed_of_nat signed_take_bit_int_eq_self)

lemma writer_fm_absent:
  assumes v: "deref (heap s) theHandle = Some b"
    and n: "0 < length (contents b)" "length (contents b) < 2 ^ 31"
    and w: "faults (os s) = []" "files (os s) spec = None"
    and m: "mac \<longrightarrow> fst (vref_reply (os s) (word_of_nat (2 + length (forks (os s))))) = noErr"
  shows "fst (QTShortCut_WriteHandleToFile (fm_env mac) theHandle spec s) = noErr
       \<and> map_option fdata (files (os (snd (QTShortCut_WriteHandleToFile (fm_env mac) theHandle spec s)))
            spec) = Some (contents b)"
proof -
  obtain a where a: "theHandle = Some a" "a < length (heap s)" "heap s ! a = Some b"
    using deref_valid [OF v] by blast
  show ?thesis
    using a n w m size_pos [OF n] size_nonneg [OF n(2)] size_exact31 [OF n(2)]
    by (simp add: writer_defs stmt_defs call_defs fm_defs noErr_def paramErr_def fnfErr_def
        split: prod.splits) auto
qed

lemma fm_env_sel2 [simp]:
  "os_Gestalt (fm_env mac) = fm_Gestalt"
  "os_CreateShortcutMovieFile (fm_env mac) = fm_CreateShortcutMovieFile"
  "os_FSpDelete (fm_env mac) = fm_FSpDelete"
  "os_FSpCreate (fm_env mac) = fm_FSpCreate"
  "os_FSpOpenDF (fm_env mac) = fm_FSpOpenDF"
  "os_SetFPos (fm_env mac) = fm_SetFPos"
  "os_FSWrite (fm_env mac) = fm_FSWrite"
  "os_SetEOF (fm_env mac) = fm_SetEOF"
  "os_FSClose (fm_env mac) = fm_FSClose"
  "os_GetVRefNum (fm_env mac) = fm_GetVRefNum"
  "os_FlushVol (fm_env mac) = fm_FlushVol"
  by (simp_all add: fm_env_def)

lemma fm_fault_files [simp]: "files (snd (fm_fault w)) = files w"
  and fm_fault_forks [simp]: "forks (snd (fm_fault w)) = forks w"
  by (simp_all add: fm_fault_def split: list.splits)

lemma fm_FSpCreate_ok:
  "fst (fm_FSpCreate spec c t w) = noErr \<Longrightarrow>
     files (snd (fm_FSpCreate spec c t w)) spec = Some \<lparr>fdata = [], fcreator = c, ftype = t\<rparr>"
  by (auto simp: fm_FSpCreate_def fm_fault_def split: prod.splits list.splits if_splits)

lemma fm_FSpOpenDF_ok:
  "fst (fst (fm_FSpOpenDF spec w)) = noErr \<Longrightarrow>
     files (snd (fm_FSpOpenDF spec w)) = files w \<and>
     fm_fork (snd (fm_FSpOpenDF spec w)) (snd (fst (fm_FSpOpenDF spec w))) = Some (spec, 0)"
  by (auto simp: fm_FSpOpenDF_def fm_fault_def fm_fork_def Let_def
      split: prod.splits list.splits if_splits)

lemma fm_SetFPos_ok:
  "fst (fm_SetFPos r off w) = noErr \<Longrightarrow> fm_fork w r = Some (sp, k) \<Longrightarrow> files w sp = Some fl \<Longrightarrow>
     files (snd (fm_SetFPos r off w)) = files w \<and>
     fm_fork (snd (fm_SetFPos r off w)) r = Some (sp, unat off) \<and>
     unat off \<le> length (fdata fl)"
  by (auto simp: fm_SetFPos_def fm_fault_def fm_fork_def fm_set_mark_def
      split: prod.splits list.splits if_splits option.splits)

lemma fm_FSWrite_ok:
  "fst (fst (fm_FSWrite r n buf w)) = noErr \<Longrightarrow> fm_fork w r = Some (sp, k) \<Longrightarrow>
   files w sp = Some fl \<Longrightarrow>
     snd (fst (fm_FSWrite r n buf w)) = n \<and>
     files (snd (fm_FSWrite r n buf w)) sp =
       Some (fl\<lparr>fdata := take k (fdata fl) @ take (unat n) buf @ drop (k + unat n) (fdata fl)\<rparr>) \<and>
     fm_fork (snd (fm_FSWrite r n buf w)) r = Some (sp, k + unat n)"
  by (auto simp: fm_FSWrite_def fm_fault_def fm_fork_def fm_set_mark_def fm_set_data_def Let_def
      split: prod.splits list.splits if_splits option.splits)

lemma fm_SetEOF_ok:
  "fst (fm_SetEOF r n w) = noErr \<Longrightarrow> fm_fork w r = Some (sp, k) \<Longrightarrow> files w sp = Some fl \<Longrightarrow>
     files (snd (fm_SetEOF r n w)) sp =
       Some (fl\<lparr>fdata := take (unat n) (fdata fl) @ replicate (unat n - length (fdata fl)) 0\<rparr>)"
  by (auto simp: fm_SetEOF_def fm_fault_def fm_fork_def fm_set_data_def
      split: prod.splits list.splits if_splits option.splits)

lemma fm_FSClose_files [simp]: "files (snd (fm_FSClose r w)) = files w"
  by (auto simp: fm_FSClose_def fm_fault_def split: prod.splits list.splits if_splits option.splits)

lemma fm_GetVRefNum_files [simp]: "files (snd (fm_GetVRefNum r w)) = files w"
  by (auto simp: fm_GetVRefNum_def fm_fault_def split: prod.splits list.splits if_splits)

lemma fm_FlushVol_files [simp]: "files (snd (fm_FlushVol v w)) = files w"
  by (simp add: fm_FlushVol_def)

lemma whenOK_noErr:
  "myErr (whenOK stmt f) = noErr \<Longrightarrow> myErr f = noErr \<and> whenOK stmt f = stmt f"
  by (auto simp: whenOK_def split: if_splits)

lemma write_steps_fm_success:
  assumes ok: "myErr (write_steps (fm_env mac) h spec f0) = noErr"
    and sz: "unat (mySize f0) = length (block_bytes (heap (st f0)) h)"
  shows "map_option fdata (files (os (st (write_steps (fm_env mac) h spec f0))) spec)
           = Some (block_bytes (heap (st f0)) h)"
proof -
  define E where "E = fm_env mac"
  define buf where "buf = block_bytes (heap (st f0)) h"
  define f1 where "f1 = stmt_FSpDelete E spec f0"
  define f2 where "f2 = stmt_FSpCreate E spec f1"
  define f3 where "f3 = whenOK (stmt_FSpOpenDF E spec) f2"
  define f4 where "f4 = whenOK (stmt_SetFPos E (\<lambda>_. 0)) f3"
  define f5 where "f5 = whenOK (stmt_FSWrite E h) f4"
  define f6 where "f6 = whenOK (stmt_SetFPos E mySize) f5"
  define f7 where "f7 = whenOK (stmt_SetEOF E) f6"
  define f8 where "f8 = whenOK (stmt_FSClose E) f7"
  define f10 where "f10 = write_steps E h spec f0"
  have ws: "f10 =
      (if mac then whenOK (stmt_FlushVol E) (whenOK (stmt_GetVRefNum E) f8) else f8)"
    by (simp add: write_steps_def Let_def f10_def f8_def f7_def f6_def f5_def f4_def f3_def
        f2_def f1_def E_def)
  have ok10: "myErr f10 = noErr"
    using ok by (simp add: f10_def E_def)
  have ok8: "myErr f8 = noErr"
    and fl10: "files (os (st f10)) = files (os (st f8))"
  proof -
    show "myErr f8 = noErr"
      using ok10 whenOK_noErr [of "stmt_FlushVol E" "whenOK (stmt_GetVRefNum E) f8"]
        whenOK_noErr [of "stmt_GetVRefNum E" f8]
      by (auto simp: ws split: if_splits)
    then show "files (os (st f10)) = files (os (st f8))"
      using ok10 whenOK_noErr [of "stmt_FlushVol E" "whenOK (stmt_GetVRefNum E) f8"]
        whenOK_noErr [of "stmt_GetVRefNum E" f8]
      by (auto simp: ws stmt_FlushVol_sel(2) stmt_GetVRefNum_sel(2) E_def split: if_splits)
  qed
  have s8: "myErr f7 = noErr" "f8 = stmt_FSClose E f7"
    using whenOK_noErr [of "stmt_FSClose E" f7] ok8 by (simp_all add: f8_def)
  have s7: "myErr f6 = noErr" "f7 = stmt_SetEOF E f6"
    using whenOK_noErr [of "stmt_SetEOF E" f6] s8(1) by (simp_all add: f7_def)
  have s6: "myErr f5 = noErr" "f6 = stmt_SetFPos E mySize f5"
    using whenOK_noErr [of "stmt_SetFPos E mySize" f5] s7(1) by (simp_all add: f6_def)
  have s5: "myErr f4 = noErr" "f5 = stmt_FSWrite E h f4"
    using whenOK_noErr [of "stmt_FSWrite E h" f4] s6(1) by (simp_all add: f5_def)
  have s4: "myErr f3 = noErr" "f4 = stmt_SetFPos E (\<lambda>_. 0) f3"
    using whenOK_noErr [of "stmt_SetFPos E (\<lambda>_. 0)" f3] s5(1) by (simp_all add: f4_def)
  have s3: "myErr f2 = noErr" "f3 = stmt_FSpOpenDF E spec f2"
    using whenOK_noErr [of "stmt_FSpOpenDF E spec" f2] s4(1) by (simp_all add: f3_def)
  \<comment> \<open>the heap and the size before the write\<close>
  have hp: "heap (st f4) = heap (st f0)" "mySize f4 = mySize f0"
    by (simp_all add: s4(2) s3(2) f2_def f1_def stmt_SetFPos_sel stmt_FSpOpenDF_sel
        stmt_FSpCreate_sel stmt_FSpDelete_sel)
  \<comment> \<open>create\<close>
  define c where "c = \<lparr>fdata = [] :: byte list, fcreator = kShortcutFileCreator E,
                        ftype = kShortcutFileType E\<rparr>"
  have w2: "files (os (st f2)) spec = Some c"
    using s3(1) fm_FSpCreate_ok [of spec "kShortcutFileCreator E" "kShortcutFileType E" "os (st f1)"]
    by (simp add: f2_def stmt_FSpCreate_sel E_def c_def)
  \<comment> \<open>open\<close>
  define r where "r = myRefNum f3"
  have w3: "files (os (st f3)) spec = Some c" "fm_fork (os (st f3)) r = Some (spec, 0)"
    using s4(1) fm_FSpOpenDF_ok [of spec "os (st f2)"] w2
    by (simp_all add: s3(2) stmt_FSpOpenDF_sel E_def r_def)
  \<comment> \<open>position to the start\<close>
  have r4: "myRefNum f4 = r"
    by (simp add: s4(2) stmt_SetFPos_sel r_def)
  have w4: "files (os (st f4)) spec = Some c" "fm_fork (os (st f4)) r = Some (spec, 0)"
    using s5(1) fm_SetFPos_ok [of r 0 "os (st f3)" spec 0 c] w3
    by (simp_all add: s4(2) stmt_SetFPos_sel E_def r_def)
  \<comment> \<open>write\<close>
  have r5: "myRefNum f5 = r"
    by (simp add: s5(2) stmt_FSWrite_sel r4)
  have w5: "mySize f5 = mySize f0" "files (os (st f5)) spec = Some (c\<lparr>fdata := buf\<rparr>)"
    "fm_fork (os (st f5)) r = Some (spec, length buf)"
    using s6(1) fm_FSWrite_ok [of r "mySize f0" buf "os (st f4)" spec 0 c] w4 sz
    by (simp_all add: s5(2) stmt_FSWrite_sel E_def r4 hp buf_def c_def)
  \<comment> \<open>position to the end\<close>
  have r6: "myRefNum f6 = r" "mySize f6 = mySize f0"
    by (simp_all add: s6(2) stmt_SetFPos_sel r5 w5)
  have w6: "files (os (st f6)) spec = Some (c\<lparr>fdata := buf\<rparr>)"
    "fm_fork (os (st f6)) r = Some (spec, length buf)"
    using s7(1) fm_SetFPos_ok [of r "mySize f0" "os (st f5)" spec "length buf" "c\<lparr>fdata := buf\<rparr>"]
      w5 sz
    by (simp_all add: s6(2) stmt_SetFPos_sel E_def r5 buf_def)
  \<comment> \<open>set the end of file\<close>
  have w7: "files (os (st f7)) spec = Some (c\<lparr>fdata := buf\<rparr>)"
    using s8(1) fm_SetEOF_ok [of r "mySize f0" "os (st f6)" spec "length buf" "c\<lparr>fdata := buf\<rparr>"]
      w6 sz
    by (simp add: s7(2) stmt_SetEOF_sel E_def r6 buf_def)
  have w8: "files (os (st f8)) spec = Some (c\<lparr>fdata := buf\<rparr>)"
    using w7 by (simp add: s8(2) stmt_FSClose_sel E_def)
  show ?thesis
    using w8 fl10 by (simp add: f10_def E_def buf_def)
qed

subsection \<open>The writer leaves the heap's bytes alone\<close>

lemma heap_whenOK:
  "(\<And>g. heap (st (stmt g)) = heap (st g)) \<Longrightarrow> heap (st (whenOK stmt f)) = heap (st f)"
  by (simp add: whenOK_def)

lemma heap_write_steps: "heap (st (write_steps E h spec f0)) = heap (st f0)"
  by (simp add: write_steps_def Let_def heap_whenOK stmt_FSpDelete_sel(3) stmt_FSpCreate_sel(3)
      stmt_FSpOpenDF_sel(3) stmt_SetFPos_sel(3) stmt_FSWrite_sel(3) stmt_SetEOF_sel(3)
      stmt_FSClose_sel(3) stmt_GetVRefNum_sel(3) stmt_FlushVol_sel(3))

lemma contents_update_locked:
  "map (map_option contents) (update_block h (\<lambda>b. b\<lparr>locked := x\<rparr>) m) = map (map_option contents) m"
  by (auto simp: update_block_def map_update list_update_same_conv split: option.splits)

lemma block_bytes_contents:
  "map (map_option contents) m' = map (map_option contents) m \<Longrightarrow>
     block_bytes m' p = block_bytes m p"
proof -
  assume eq: "map (map_option contents) m' = map (map_option contents) m"
  then have len: "length m' = length m"
    by (metis length_map)
  have h: "\<And>a. a < length m \<Longrightarrow> map_option contents (m' ! a) = map_option contents (m ! a)"
    using eq len by (metis nth_map)
  show ?thesis
  proof (cases p)
    case None
    then show ?thesis
      by (simp add: block_bytes_def deref_def)
  next
    case (Some a)
    show ?thesis
    proof (cases "a < length m")
      case True
      from h [OF True] show ?thesis
        using len True Some
        by (cases "m ! a"; cases "m' ! a"; simp add: block_bytes_def deref_def)
    next
      case False
      then show ?thesis
        using len Some by (simp add: block_bytes_def deref_def)
    qed
  qed
qed

lemma writer_keeps_contents:
  "map (map_option contents) (heap (snd (QTShortCut_WriteHandleToFile E theHandle spec s)))
     = map (map_option contents) (heap s)"
  by (simp add: QTShortCut_WriteHandleToFile_def Let_def HUnlock_def HLock_def heap_write_steps
      contents_update_locked)

lemma writer_keeps_bytes:
  "block_bytes (heap (snd (QTShortCut_WriteHandleToFile E theHandle spec s))) p
     = block_bytes (heap s) p"
  by (rule block_bytes_contents) (rule writer_keeps_contents)

lemma writer_fm_success:
  assumes n: "length (block_bytes (heap s) theHandle) < 2 ^ 32"
    and ok: "fst (QTShortCut_WriteHandleToFile (fm_env mac) theHandle spec s) = noErr"
  shows "map_option fdata
           (files (os (snd (QTShortCut_WriteHandleToFile (fm_env mac) theHandle spec s))) spec)
         = Some (block_bytes (heap s) theHandle)"
proof -
  define f0 :: "fm_world locals" where "f0 = \<lparr>myErr = paramErr, myRefNum = 0, myVolNum = 0,
                   mySize = GetHandleSize theHandle s, st = HLock theHandle s\<rparr>"
  have nn: "theHandle \<noteq> None" "GetHandleSize theHandle s \<noteq> 0"
    using ok by (auto simp: QTShortCut_WriteHandleToFile_def split: if_splits)
  have r: "QTShortCut_WriteHandleToFile (fm_env mac) theHandle spec s =
             (myErr (write_steps (fm_env mac) theHandle spec f0),
              HUnlock theHandle (st (write_steps (fm_env mac) theHandle spec f0)))"
    unfolding QTShortCut_WriteHandleToFile_def by (simp add: nn Let_def f0_def)
  have hb: "block_bytes (heap (st f0)) theHandle = block_bytes (heap s) theHandle"
    by (rule block_bytes_contents) (simp add: f0_def HLock_def contents_update_locked)
  have sz: "unat (mySize f0) = length (block_bytes (heap (st f0)) theHandle)"
    using n by (simp add: hb) (simp add: f0_def GetHandleSize_def unat_size_exact)
  show ?thesis
    using write_steps_fm_success [of mac theHandle spec f0, OF _ sz] ok
    by (simp add: r hb)
qed

subsection \<open>The version test\<close>

lemma mask16: "(0xffff :: 32 word) = mask 16"
  by (simp add: mask_eq_exp_minus_1)

lemma version_field: "signed_drop_bit 16 v AND 0xffff = drop_bit 16 (v :: 32 word)"
  unfolding mask16
  by (rule bit_word_eqI) (auto simp: bit_simps dest: bit_imp_le_length)

lemma unat_drop16: "unat (drop_bit 16 (v :: 32 word)) < 2 ^ 16"
proof -
  have "unat v < 2 ^ 32"
    using unsigned_less [of v, where 'a = nat] by simp
  then have "unat v div 2 ^ 16 < 2 ^ 16"
    by (intro less_mult_imp_div_less) simp
  then show ?thesis
    by (simp add: unat_drop_bit_eq drop_bit_eq_div unat_div)
qed

lemma sint_drop16: "sint (drop_bit 16 (v :: 32 word)) = int (unat (drop_bit 16 v))"
proof -
  define k where "k = unat (drop_bit 16 v)"
  have k: "k < 2 ^ 16"
    unfolding k_def by (rule unat_drop16)
  have "int k < int (2 ^ 16)"
    using k by (simp only: of_nat_less_iff)
  then have 1: "int k < 2 ^ 31"
    by simp
  have 2: "- (2 ^ 31) \<le> int k"
    by simp
  have 3: "signed_take_bit 31 (int k) = int k"
    using 2 1 by (rule signed_take_bit_int_eq_self)
  have 4: "sint (drop_bit 16 v) = signed_take_bit 31 (uint (drop_bit 16 v))"
    by (simp add: sint_uint)
  have 5: "uint (drop_bit 16 v) = int k"
    unfolding k_def by (rule uint_nat)
  show ?thesis
    using 3 unfolding 4 5 k_def .
qed

lemma div_step: "(1024 \<le> (n::nat)) = (4 \<le> n div 256)"
  by arith
lemma major_minor: "(0x0400 \<le> unat (drop_bit 16 (v :: 32 word))) = (4 \<le> unat (drop_bit 24 v))"
proof -
  define n where "n = unat v div 2 ^ 16"
  have "unat v div 2 ^ 24 = n div 2 ^ 8"
    by (simp add: n_def div_mult2_eq [symmetric])
  then show ?thesis
    using div_step [of n]
    by (simp add: unat_drop_bit_eq drop_bit_eq_div n_def unat_div)
qed

subsection \<open>Which calls the two functions make\<close>

lemma has_CreateShortcutMovieFile_iff:
  "has_CreateShortcutMovieFile v \<longleftrightarrow> 0x0400 \<le> unat (drop_bit 16 v)"
proof -
  have "has_CreateShortcutMovieFile v \<longleftrightarrow> 1024 \<le> sint (drop_bit 16 v)"
    by (simp add: has_CreateShortcutMovieFile_def version_field word_sle_eq)
  also have "\<dots> \<longleftrightarrow> 1024 \<le> int (unat (drop_bit 16 v))"
    unfolding sint_drop16 ..
  also have "\<dots> \<longleftrightarrow> 1024 \<le> unat (drop_bit 16 v)"
    by linarith
  finally show ?thesis
    by simp
qed

lemma bail_sel [simp]:
  "fst (bail e d m s) = e" "trace (snd (bail e d m s)) = trace s" "os (snd (bail e d m s)) = os s"
  by (simp_all add: bail_def Let_def DisposePtr_def DisposeHandle_def)

lemma NewPtrClear_trace:
  "\<exists>e. trace (snd (NewPtrClear E n s)) = trace s @ [(NewPtrClear_call n, e)]"
  by (simp add: NewPtrClear_def new_block_def record_call_def split: prod.splits)

lemma NewHandleClear_trace:
  "\<exists>e. trace (snd (NewHandleClear E n s)) = trace s @ [(NewHandleClear_call n, e)]"
  by (simp add: NewHandleClear_def new_block_def record_call_def split: prod.splits)

lemma PtrAndHand_trace:
  "\<exists>e. trace (snd (PtrAndHand E p h n s)) = trace s @ [(PtrAndHand_call n, e)]"
  by (simp add: PtrAndHand_def record_call_def split: prod.splits)

lemma build_atoms_trace:
  "\<exists>T. trace (snd (build_atoms E e0 h ty s)) = trace s @ T \<and> T \<noteq> [] \<and>
       call_name (fst (hd T)) = ''NewPtrClear'' \<and>
       set (map (\<lambda>ev. call_name (fst ev)) T) \<subseteq> {''NewPtrClear'', ''NewHandleClear'', ''PtrAndHand''}"
proof -
  define n where "n = 4 + GetHandleSize h s"
  obtain d s1 where 1: "NewPtrClear E n s = (d, s1)"
    by (cases "NewPtrClear E n s")
  obtain e1 where t1: "trace s1 = trace s @ [(NewPtrClear_call n, e1)]"
    using NewPtrClear_trace [of E n s] 1 by auto
  define s3 where "s3 = copy_data_ref (EndianU32_NtoB ty) h d s1"
  obtain m s4 where 4: "NewHandleClear E 24 s3 = (m, s4)"
    by (cases "NewHandleClear E 24 s3")
  obtain e4 where t4: "trace s4 = trace s1 @ [(NewHandleClear_call 24, e4)]"
    using NewHandleClear_trace [of E 24 s3] 4 by (auto simp: s3_def)
  define s10 where "s10 = fill_atom_headers E 8 d m s4"
  obtain e11 s11 where 11: "PtrAndHand E d m (GetPtrSize d s10) s10 = (e11, s11)"
    by (cases "PtrAndHand E d m (GetPtrSize d s10) s10")
  obtain e' where t11: "trace s11 = trace s4 @ [(PtrAndHand_call (GetPtrSize d s10), e')]"
    using PtrAndHand_trace [of E d m "GetPtrSize d s10" s10] 11 by (auto simp: s10_def)
  have "snd (build_atoms E e0 h ty s) =
      (if d = None then s1 else if m = None then s4 else s11)"
    by (simp add: build_atoms_def n_def [symmetric] 1 s3_def [symmetric] 4 s10_def [symmetric] 11)
  then show ?thesis
    using t1 t4 t11 by auto
qed

lemma writer_trace:
  "\<exists>T. trace (snd (QTShortCut_WriteHandleToFile E h spec s)) = trace s @ T \<and>
       set (map (\<lambda>ev. call_name (fst ev)) T) \<subseteq> set (writer_sequence True)"
proof (cases "h = None \<or> GetHandleSize h s = 0")
  case True
  then show ?thesis
    by (auto simp: QTShortCut_WriteHandleToFile_def)
next
  case False
  define f0 :: "'a locals" where "f0 = \<lparr>myErr = paramErr, myRefNum = 0, myVolNum = 0,
                   mySize = GetHandleSize h s, st = HLock h s\<rparr>"
  have r: "QTShortCut_WriteHandleToFile E h spec s =
             (myErr (write_steps E h spec f0), HUnlock h (st (write_steps E h spec f0)))"
    unfolding QTShortCut_WriteHandleToFile_def using False by (auto simp: Let_def f0_def)
  obtain T where T: "trace (st (write_steps E h spec f0)) = trace s @ T"
    "map (\<lambda>ev. call_name (fst ev)) T = take (length T) (writer_sequence (TARGET_OS_MAC E))"
    using write_steps_run_ok [of E f0 h spec] by (auto simp: run_ok_def f0_def)
  have "writer_sequence True = writer_sequence (TARGET_OS_MAC E) @
          (if TARGET_OS_MAC E then [] else [''GetVRefNum'', ''FlushVol''])"
    by (simp add: writer_sequence_def)
  then have "set (writer_sequence (TARGET_OS_MAC E)) \<subseteq> set (writer_sequence True)"
    by (metis Un_upper1 set_append)
  then have "set (take (length T) (writer_sequence (TARGET_OS_MAC E))) \<subseteq> set (writer_sequence True)"
    using set_take_subset [of "length T" "writer_sequence (TARGET_OS_MAC E)"] by blast
  then have "set (map (\<lambda>ev. call_name (fst ev)) T) \<subseteq> set (writer_sequence True)"
    unfolding T(2) .
  then show ?thesis
    using T(1) unfolding r by (intro exI [of _ T]) simp
qed

lemma manual_path_trace:
  assumes g: "os_Gestalt E (os s) = ((noErr, v), w)" and nv: "\<not> has_CreateShortcutMovieFile v"
  shows "\<exists>T. trace (snd (QTShortCut_CreateShortcutMovieFile E u h ty spec s))
               = trace s @ (Gestalt_call, noErr) # T
            \<and> T \<noteq> [] \<and> call_name (fst (hd T)) = ''NewPtrClear''
            \<and> set (map (\<lambda>ev. call_name (fst ev)) T)
                 \<subseteq> {''NewPtrClear'', ''NewHandleClear'', ''PtrAndHand''} \<union> set (writer_sequence True)"
proof -
  define s1 where "s1 = record_call Gestalt_call noErr w s"
  have t1: "trace s1 = trace s @ [(Gestalt_call, noErr)]"
    by (simp add: s1_def record_call_def)
  obtain ft e1 d m s2 where b: "build_atoms E noErr h ty s1 = ((ft, e1, d, m), s2)"
    by (cases "build_atoms E noErr h ty s1") auto
  obtain Tb where Tb: "trace s2 = trace s1 @ Tb" "Tb \<noteq> []"
    "call_name (fst (hd Tb)) = ''NewPtrClear''"
    "set (map (\<lambda>ev. call_name (fst ev)) Tb) \<subseteq> {''NewPtrClear'', ''NewHandleClear'', ''PtrAndHand''}"
    using build_atoms_trace [of E noErr h ty s1] b by auto
  obtain e2 s3 where wr: "QTShortCut_WriteHandleToFile E m spec s2 = (e2, s3)"
    by (cases "QTShortCut_WriteHandleToFile E m spec s2")
  obtain Tw where Tw: "trace s3 = trace s2 @ Tw"
    "set (map (\<lambda>ev. call_name (fst ev)) Tw) \<subseteq> set (writer_sequence True)"
    using writer_trace [of E m spec s2] wr by auto
  have r: "QTShortCut_CreateShortcutMovieFile E u h ty spec s =
             (if ft then bail e2 d m s3 else bail e1 d m s2)"
    by (simp add: manual_path [OF g nv] s1_def [symmetric] b wr)
  show ?thesis
  proof (cases ft)
    case True
    have "trace (snd (QTShortCut_CreateShortcutMovieFile E u h ty spec s))
            = trace s @ (Gestalt_call, noErr) # (Tb @ Tw)"
      using True by (simp add: r Tw Tb t1)
    moreover have "Tb @ Tw \<noteq> []" "call_name (fst (hd (Tb @ Tw))) = ''NewPtrClear''"
      using Tb by simp_all
    moreover have "set (map (\<lambda>ev. call_name (fst ev)) (Tb @ Tw))
        \<subseteq> {''NewPtrClear'', ''NewHandleClear'', ''PtrAndHand''} \<union> set (writer_sequence True)"
      using Tb(4) Tw(2) by auto
    ultimately show ?thesis
      by blast
  next
    case False
    have "trace (snd (QTShortCut_CreateShortcutMovieFile E u h ty spec s))
            = trace s @ (Gestalt_call, noErr) # Tb"
      using False by (simp add: r Tb t1)
    moreover have "set (map (\<lambda>ev. call_name (fst ev)) Tb)
        \<subseteq> {''NewPtrClear'', ''NewHandleClear'', ''PtrAndHand''} \<union> set (writer_sequence True)"
      using Tb(4) by auto
    ultimately show ?thesis
      using Tb(2,3) by blast
  qed
qed

lemma not_native_name:
  "''CreateShortcutMovieFile'' \<notin> {''NewPtrClear'', ''NewHandleClear'', ''PtrAndHand''}
       \<union> set (writer_sequence True)"
  by (simp add: writer_sequence_def)

lemma native_path:
  assumes g: "os_Gestalt E (os s) = ((noErr, v), w)" and hv: "has_CreateShortcutMovieFile v"
  shows "QTShortCut_CreateShortcutMovieFile E u h ty spec s =
           CreateShortcutMovieFile E spec h ty (record_call Gestalt_call noErr w s)"
    and "\<exists>e. trace (snd (QTShortCut_CreateShortcutMovieFile E u h ty spec s)) =
            trace s @ [(Gestalt_call, noErr), (CreateShortcutMovieFile_call spec, e)]"
    and "heap (snd (QTShortCut_CreateShortcutMovieFile E u h ty spec s)) = heap s"
  using assms
  by (simp_all add: QTShortCut_CreateShortcutMovieFile_def Gestalt_def CreateShortcutMovieFile_def
      record_call_def split: prod.splits)

subsection \<open>Failure of the version query\<close>

text \<open>
  Claim C7. When \<^verbatim>\<open>Gestalt\<close> fails, the function returns the code \<^verbatim>\<open>Gestalt\<close> gave, and
  \<^verbatim>\<open>Gestalt\<close> is the only call in the trace: neither \<^verbatim>\<open>CreateShortcutMovieFile\<close> nor any
  allocation of the atom-building block nor any File Manager call of the writer was made,
  and the world is as \<^verbatim>\<open>Gestalt\<close> left it. When \<^verbatim>\<open>Gestalt\<close> succeeds with a version older
  than 4.0, the function goes on instead, and its next call is the first one of the
  atom-building block, \<^verbatim>\<open>NewPtrClear\<close>. This holds for every value of the two uninitialised
  variables that the cleanup at \<^verbatim>\<open>bail\<close> reads (what that cleanup disposes of is not part
  of the statement).
\<close>

theorem gestalt_failure_returned:
  "(os_Gestalt E (os s) = ((e, v), w) \<and> e \<noteq> noErr \<longrightarrow>
      fst (QTShortCut_CreateShortcutMovieFile E u h ty spec s) = e
    \<and> trace (snd (QTShortCut_CreateShortcutMovieFile E u h ty spec s))
        = trace s @ [(Gestalt_call, e)]
    \<and> os (snd (QTShortCut_CreateShortcutMovieFile E u h ty spec s)) = w)
 \<and> (os_Gestalt E (os s) = ((noErr, v), w) \<and> \<not> has_CreateShortcutMovieFile v \<longrightarrow>
      map (\<lambda>ev. call_name (fst ev))
        (take 2 (drop (length (trace s))
           (trace (snd (QTShortCut_CreateShortcutMovieFile E u h ty spec s)))))
        = [''Gestalt'', ''NewPtrClear''])"
proof (intro conjI impI)
  assume a: "os_Gestalt E (os s) = ((e, v), w) \<and> e \<noteq> noErr"
  then have r: "QTShortCut_CreateShortcutMovieFile E u h ty spec s =
                  bail e (fst u) (snd u) (record_call Gestalt_call e w s)"
    by (simp add: QTShortCut_CreateShortcutMovieFile_def Gestalt_def)
  show "fst (QTShortCut_CreateShortcutMovieFile E u h ty spec s) = e"
    by (simp add: r)
  show "trace (snd (QTShortCut_CreateShortcutMovieFile E u h ty spec s))
          = trace s @ [(Gestalt_call, e)]"
    by (simp add: r record_call_def)
  show "os (snd (QTShortCut_CreateShortcutMovieFile E u h ty spec s)) = w"
    by (simp add: r record_call_def)
next
  assume a: "os_Gestalt E (os s) = ((noErr, v), w) \<and> \<not> has_CreateShortcutMovieFile v"
  then obtain T where T:
    "trace (snd (QTShortCut_CreateShortcutMovieFile E u h ty spec s))
       = trace s @ (Gestalt_call, noErr) # T"
    "T \<noteq> []" "call_name (fst (hd T)) = ''NewPtrClear''"
    using manual_path_trace [of E s v w u h ty spec] by blast
  obtain x T' where x: "T = x # T'"
    using T(2) by (cases T) auto
  show "map (\<lambda>ev. call_name (fst ev))
        (take 2 (drop (length (trace s))
           (trace (snd (QTShortCut_CreateShortcutMovieFile E u h ty spec s)))))
        = [''Gestalt'', ''NewPtrClear'']"
    using T(3) by (simp add: T(1) x)
qed

theorem gestalt_failure_returned_witness:
  "fst (QTShortCut_CreateShortcutMovieFile (fm_env False) (Some 7, Some 9) (Some 0) 0x616C6973
      ''shortcut''
      (state0 [Some \<lparr>contents = [1, 2, 3], locked = False\<rparr>] (fm_world0 0x03FF0000 [- 5551])))
     = - 5551
 \<and> trace (snd (QTShortCut_CreateShortcutMovieFile (fm_env False) (Some 7, Some 9) (Some 0)
      0x616C6973 ''shortcut''
      (state0 [Some \<lparr>contents = [1, 2, 3], locked = False\<rparr>] (fm_world0 0x03FF0000 [- 5551]))))
     = [(Gestalt_call, - 5551)]
 \<and> map (\<lambda>ev. call_name (fst ev))
      (take 2 (trace (snd (QTShortCut_CreateShortcutMovieFile (fm_env False) (Some 7, Some 9)
         (Some 0) 0x616C6973 ''shortcut''
         (state0 [Some \<lparr>contents = [1, 2, 3], locked = False\<rparr>] (fm_world0 0x03FF0000 []))))))
     = [''Gestalt'', ''NewPtrClear'']"
proof -
  define hp where "hp = [Some \<lparr>contents = [1, 2, 3 :: byte], locked = False\<rparr>]"
  have g1: "os_Gestalt (fm_env False) (os (state0 hp (fm_world0 0x03FF0000 [- 5551])))
              = ((- 5551, 0), fm_world0 0x03FF0000 []) \<and> (- 5551 :: OSErr) \<noteq> noErr"
    by (simp add: fm_defs noErr_def)
  have g2: "os_Gestalt (fm_env False) (os (state0 hp (fm_world0 0x03FF0000 [])))
              = ((noErr, 0x03FF0000), fm_world0 0x03FF0000 [])
            \<and> \<not> has_CreateShortcutMovieFile 0x03FF0000"
    by (simp add: fm_defs has_CreateShortcutMovieFile_def)
  show ?thesis
    using gestalt_failure_returned [where E = "fm_env False" and u = "(Some 7, Some 9)"
        and h = "Some 0" and ty = "0x616C6973" and spec = "''shortcut''"
        and s = "state0 hp (fm_world0 0x03FF0000 [- 5551])" and e = "- 5551" and v = 0
        and w = "fm_world0 0x03FF0000 []", THEN conjunct1, rule_format, OF g1]
      gestalt_failure_returned [where E = "fm_env False" and u = "(Some 7, Some 9)"
        and h = "Some 0" and ty = "0x616C6973" and spec = "''shortcut''"
        and s = "state0 hp (fm_world0 0x03FF0000 [])" and v = "0x03FF0000"
        and w = "fm_world0 0x03FF0000 []", THEN conjunct2, rule_format, OF g2]
    by (simp add: hp_def state0_def)
qed

subsection \<open>The choice between the two paths\<close>

text \<open>
  Claim C5. The test of line 80 holds exactly when the upper 16 bits of the version,
  read unsigned, are at least \<open>0x0400\<close>, that is when the major version (the top byte) is
  at least 4. It fails for \<open>0x03FF0000\<close> and holds for \<open>0x04000000\<close>. When it holds, the
  function is the single call of \<^verbatim>\<open>CreateShortcutMovieFile\<close>: the calls made are
  \<^verbatim>\<open>Gestalt\<close> and that one, and the heap is untouched. When it fails,
  \<^verbatim>\<open>CreateShortcutMovieFile\<close> is never called and the second call is \<^verbatim>\<open>NewPtrClear\<close>.
\<close>

theorem version_decides_path:
  "(has_CreateShortcutMovieFile v \<longleftrightarrow> 0x0400 \<le> unat (drop_bit 16 v))
 \<and> (has_CreateShortcutMovieFile v \<longleftrightarrow> 4 \<le> unat (drop_bit 24 v))
 \<and> \<not> has_CreateShortcutMovieFile 0x03FF0000
 \<and> has_CreateShortcutMovieFile 0x04000000
 \<and> (os_Gestalt E (os s) = ((noErr, v), w) \<and> has_CreateShortcutMovieFile v \<longrightarrow>
      QTShortCut_CreateShortcutMovieFile E u h ty spec s =
        CreateShortcutMovieFile E spec h ty (record_call Gestalt_call noErr w s)
    \<and> map (\<lambda>ev. call_name (fst ev))
        (drop (length (trace s)) (trace (snd (QTShortCut_CreateShortcutMovieFile E u h ty spec s))))
        = [''Gestalt'', ''CreateShortcutMovieFile'']
    \<and> heap (snd (QTShortCut_CreateShortcutMovieFile E u h ty spec s)) = heap s)
 \<and> (os_Gestalt E (os s) = ((noErr, v), w) \<and> \<not> has_CreateShortcutMovieFile v \<longrightarrow>
      ''CreateShortcutMovieFile'' \<notin> set (map (\<lambda>ev. call_name (fst ev))
        (drop (length (trace s))
           (trace (snd (QTShortCut_CreateShortcutMovieFile E u h ty spec s)))))
    \<and> map (\<lambda>ev. call_name (fst ev))
        (take 2 (drop (length (trace s))
           (trace (snd (QTShortCut_CreateShortcutMovieFile E u h ty spec s)))))
        = [''Gestalt'', ''NewPtrClear''])"
proof -
  have 1: "has_CreateShortcutMovieFile v \<longleftrightarrow> 0x0400 \<le> unat (drop_bit 16 v)"
    by (rule has_CreateShortcutMovieFile_iff)
  have 2: "has_CreateShortcutMovieFile v \<longleftrightarrow> 4 \<le> unat (drop_bit 24 v)"
    unfolding 1 by (rule major_minor)
  have 3: "\<not> has_CreateShortcutMovieFile 0x03FF0000" "has_CreateShortcutMovieFile 0x04000000"
    by (simp_all add: has_CreateShortcutMovieFile_def word_sle_eq)
  have 4: "os_Gestalt E (os s) = ((noErr, v), w) \<and> has_CreateShortcutMovieFile v \<longrightarrow>
      QTShortCut_CreateShortcutMovieFile E u h ty spec s =
        CreateShortcutMovieFile E spec h ty (record_call Gestalt_call noErr w s)
    \<and> map (\<lambda>ev. call_name (fst ev))
        (drop (length (trace s)) (trace (snd (QTShortCut_CreateShortcutMovieFile E u h ty spec s))))
        = [''Gestalt'', ''CreateShortcutMovieFile'']
    \<and> heap (snd (QTShortCut_CreateShortcutMovieFile E u h ty spec s)) = heap s"
  proof (rule impI)
    assume a: "os_Gestalt E (os s) = ((noErr, v), w) \<and> has_CreateShortcutMovieFile v"
    then have g: "os_Gestalt E (os s) = ((noErr, v), w)" and hv: "has_CreateShortcutMovieFile v"
      by simp_all
    obtain e where e: "trace (snd (QTShortCut_CreateShortcutMovieFile E u h ty spec s)) =
            trace s @ [(Gestalt_call, noErr), (CreateShortcutMovieFile_call spec, e)]"
      using native_path(2) [OF g hv] by blast
    have n: "map (\<lambda>ev. call_name (fst ev))
        (drop (length (trace s)) (trace (snd (QTShortCut_CreateShortcutMovieFile E u h ty spec s))))
        = [''Gestalt'', ''CreateShortcutMovieFile'']"
      unfolding e by simp
    show "QTShortCut_CreateShortcutMovieFile E u h ty spec s =
        CreateShortcutMovieFile E spec h ty (record_call Gestalt_call noErr w s)
    \<and> map (\<lambda>ev. call_name (fst ev))
        (drop (length (trace s)) (trace (snd (QTShortCut_CreateShortcutMovieFile E u h ty spec s))))
        = [''Gestalt'', ''CreateShortcutMovieFile'']
    \<and> heap (snd (QTShortCut_CreateShortcutMovieFile E u h ty spec s)) = heap s"
      using native_path(1) [OF g hv] n native_path(3) [OF g hv] by (intro conjI)
  qed
  have 5: "os_Gestalt E (os s) = ((noErr, v), w) \<and> \<not> has_CreateShortcutMovieFile v \<longrightarrow>
      ''CreateShortcutMovieFile'' \<notin> set (map (\<lambda>ev. call_name (fst ev))
        (drop (length (trace s))
           (trace (snd (QTShortCut_CreateShortcutMovieFile E u h ty spec s)))))
    \<and> map (\<lambda>ev. call_name (fst ev))
        (take 2 (drop (length (trace s))
           (trace (snd (QTShortCut_CreateShortcutMovieFile E u h ty spec s)))))
        = [''Gestalt'', ''NewPtrClear'']"
  proof (rule impI)
    assume a: "os_Gestalt E (os s) = ((noErr, v), w) \<and> \<not> has_CreateShortcutMovieFile v"
    obtain T where T:
      "trace (snd (QTShortCut_CreateShortcutMovieFile E u h ty spec s))
         = trace s @ (Gestalt_call, noErr) # T"
      "T \<noteq> []" "call_name (fst (hd T)) = ''NewPtrClear''"
      "set (map (\<lambda>ev. call_name (fst ev)) T)
         \<subseteq> {''NewPtrClear'', ''NewHandleClear'', ''PtrAndHand''} \<union> set (writer_sequence True)"
      using manual_path_trace [of E s v w u h ty spec] a by blast
    obtain x T' where x: "T = x # T'"
      using T(2) by (cases T) auto
    have "''CreateShortcutMovieFile'' \<notin> set (map (\<lambda>ev. call_name (fst ev)) T)"
      by (rule contra_subsetD [OF T(4) not_native_name])
    then show "''CreateShortcutMovieFile'' \<notin> set (map (\<lambda>ev. call_name (fst ev))
        (drop (length (trace s))
           (trace (snd (QTShortCut_CreateShortcutMovieFile E u h ty spec s)))))
    \<and> map (\<lambda>ev. call_name (fst ev))
        (take 2 (drop (length (trace s))
           (trace (snd (QTShortCut_CreateShortcutMovieFile E u h ty spec s)))))
        = [''Gestalt'', ''NewPtrClear'']"
      using T(3) by (simp add: T(1) x)
  qed
  show ?thesis
    by (intro conjI) (fact 1, fact 2, fact 3(1), fact 3(2), fact 4, fact 5)
qed

theorem version_decides_path_witness:
  "has_CreateShortcutMovieFile 0x04000000 \<and> \<not> has_CreateShortcutMovieFile 0x03FF0000
 \<and> map (\<lambda>ev. call_name (fst ev))
      (trace (snd (QTShortCut_CreateShortcutMovieFile (fm_env False) (None, None)
         (Some 0) 0x616C6973 ''shortcut''
         (state0 [Some \<lparr>contents = [1, 2, 3], locked = False\<rparr>] (fm_world0 0x04000000 [])))))
     = [''Gestalt'', ''CreateShortcutMovieFile'']
 \<and> ''CreateShortcutMovieFile'' \<notin> set (map (\<lambda>ev. call_name (fst ev))
      (trace (snd (QTShortCut_CreateShortcutMovieFile (fm_env False) (None, None)
         (Some 0) 0x616C6973 ''shortcut''
         (state0 [Some \<lparr>contents = [1, 2, 3], locked = False\<rparr>] (fm_world0 0x03FF0000 []))))))"
proof -
  define hp where "hp = [Some \<lparr>contents = [1, 2, 3 :: byte], locked = False\<rparr>]"
  note t = version_decides_path [where E = "fm_env False" and u = "(None, None)"
        and h = "Some 0" and ty = "0x616C6973" and spec = "''shortcut''"]
  have a: "has_CreateShortcutMovieFile 0x04000000" "\<not> has_CreateShortcutMovieFile 0x03FF0000"
    using t [where v = 0 and s = "state0 hp (fm_world0 0 [])" and w = "fm_world0 0 []"]
    by simp_all
  have g4: "os_Gestalt (fm_env False) (os (state0 hp (fm_world0 0x04000000 [])))
              = ((noErr, 0x04000000), fm_world0 0x04000000 [])
            \<and> has_CreateShortcutMovieFile 0x04000000"
    using a by (simp add: fm_defs)
  have g3: "os_Gestalt (fm_env False) (os (state0 hp (fm_world0 0x03FF0000 [])))
              = ((noErr, 0x03FF0000), fm_world0 0x03FF0000 [])
            \<and> \<not> has_CreateShortcutMovieFile 0x03FF0000"
    using a by (simp add: fm_defs)
  have n: "map (\<lambda>ev. call_name (fst ev))
      (trace (snd (QTShortCut_CreateShortcutMovieFile (fm_env False) (None, None)
         (Some 0) 0x616C6973 ''shortcut'' (state0 hp (fm_world0 0x04000000 [])))))
     = [''Gestalt'', ''CreateShortcutMovieFile'']"
    using t [where v = "0x04000000" and s = "state0 hp (fm_world0 0x04000000 [])"
        and w = "fm_world0 0x04000000 []", THEN conjunct2, THEN conjunct2, THEN conjunct2,
        THEN conjunct2, THEN conjunct1, rule_format, OF g4, THEN conjunct2,
        THEN conjunct1]
    by (simp add: state0_def)
  have m: "''CreateShortcutMovieFile'' \<notin> set (map (\<lambda>ev. call_name (fst ev))
      (trace (snd (QTShortCut_CreateShortcutMovieFile (fm_env False) (None, None)
         (Some 0) 0x616C6973 ''shortcut'' (state0 hp (fm_world0 0x03FF0000 []))))))"
    using t [where v = "0x03FF0000" and s = "state0 hp (fm_world0 0x03FF0000 [])"
        and w = "fm_world0 0x03FF0000 []", THEN conjunct2, THEN conjunct2, THEN conjunct2,
        THEN conjunct2, THEN conjunct2, rule_format, OF g3, THEN conjunct1]
    by (simp add: state0_def)
  show ?thesis
    using a n m unfolding hp_def by (intro conjI)
qed

subsection \<open>The writer's parameter check\<close>

text \<open>
  Claim C9. Called with a null handle or with a handle of size zero, the writer returns
  \<open>paramErr\<close> at once: it makes no call at all (no removal, creation or write), and the
  world, with the target in it, is as before. The atom-building block never hands over
  such a buffer: whenever it reaches the writer call (for a payload whose total size fits
  the size field), the buffer has at least 28 bytes and its size is not zero.
\<close>

theorem write_handle_paramErr:
  "(theHandle = None \<or> GetHandleSize theHandle s = 0 \<longrightarrow>
      fst (QTShortCut_WriteHandleToFile E theHandle spec s) = paramErr
    \<and> trace (snd (QTShortCut_WriteHandleToFile E theHandle spec s)) = trace s
    \<and> os (snd (QTShortCut_WriteHandleToFile E theHandle spec s)) = os s)
 \<and> (deref (heap s) theDataRef = Some b \<and> length (contents b) + 28 < 2 ^ 32
      \<and> fst (build_atoms E e0 theDataRef tag s) = (True, e, d, m) \<longrightarrow>
      28 \<le> length (block_bytes (heap (snd (build_atoms E e0 theDataRef tag s))) m)
    \<and> GetHandleSize m (snd (build_atoms E e0 theDataRef tag s)) \<noteq> 0)"
proof (intro conjI impI)
  assume "theHandle = None \<or> GetHandleSize theHandle s = 0"
  then have r: "QTShortCut_WriteHandleToFile E theHandle spec s = (paramErr, HUnlock theHandle s)"
    by (auto simp: QTShortCut_WriteHandleToFile_def)
  show "fst (QTShortCut_WriteHandleToFile E theHandle spec s) = paramErr"
    "trace (snd (QTShortCut_WriteHandleToFile E theHandle spec s)) = trace s"
    "os (snd (QTShortCut_WriteHandleToFile E theHandle spec s)) = os s"
    by (simp_all add: r)
next
  assume a: "deref (heap s) theDataRef = Some b \<and> length (contents b) + 28 < 2 ^ 32
      \<and> fst (build_atoms E e0 theDataRef tag s) = (True, e, d, m)"
  then have r: "build_atoms E e0 theDataRef tag s =
             ((True, e, d, m), snd (build_atoms E e0 theDataRef tag s))"
    by (metis prod.collapse)
  have lay: "block_bytes (heap (snd (build_atoms E e0 theDataRef tag s))) m
               = shortcut_layout E tag (contents b)"
    using build_atoms_exact [OF _ _ r] a by simp
  have len: "length (block_bytes (heap (snd (build_atoms E e0 theDataRef tag s))) m)
               = 28 + length (contents b)"
    by (simp add: lay shortcut_layout_def)
  show "28 \<le> length (block_bytes (heap (snd (build_atoms E e0 theDataRef tag s))) m)"
    by (simp add: len)
  have "unat (GetHandleSize m (snd (build_atoms E e0 theDataRef tag s))) = 28 + length (contents b)"
    using a unat_size_exact [of "28 + length (contents b)"]
    by (simp add: GetHandleSize_def len add.commute)
  then show "GetHandleSize m (snd (build_atoms E e0 theDataRef tag s)) \<noteq> 0"
    by auto
qed

theorem write_handle_paramErr_witness:
  "fst (QTShortCut_WriteHandleToFile (fm_env True) None ''shortcut''
      (state0 [Some \<lparr>contents = [], locked = True\<rparr>] (fm_world0 0 []))) = paramErr
 \<and> fst (QTShortCut_WriteHandleToFile (fm_env True) (Some 0) ''shortcut''
      (state0 [Some \<lparr>contents = [], locked = True\<rparr>] (fm_world0 0 []))) = paramErr
 \<and> trace (snd (QTShortCut_WriteHandleToFile (fm_env True) (Some 0) ''shortcut''
      (state0 [Some \<lparr>contents = [], locked = True\<rparr>] (fm_world0 0 [])))) = []
 \<and> os (snd (QTShortCut_WriteHandleToFile (fm_env True) (Some 0) ''shortcut''
      (state0 [Some \<lparr>contents = [], locked = True\<rparr>] (fm_world0 0 [])))) = fm_world0 0 []
 \<and> 28 \<le> length (block_bytes (heap (snd (build_atoms (fm_env True) noErr (Some 0) 0x616C6973
      (state0 [Some \<lparr>contents = [], locked = True\<rparr>] (fm_world0 0 []))))) (Some 2))"
proof -
  define s where "s = state0 [Some \<lparr>contents = ([] :: byte list), locked = True\<rparr>] (fm_world0 0 [])"
  note t = write_handle_paramErr [where E = "fm_env True" and s = s and spec = "''shortcut''"]
  have h1: "(None :: pointer) = None \<or> GetHandleSize None s = 0"
    by simp
  have h2: "Some 0 = None \<or> GetHandleSize (Some 0) s = 0"
    by (simp add: s_def state0_def GetHandleSize_def block_bytes_def deref_def)
  have v: "deref (heap s) (Some 0) = Some \<lparr>contents = [], locked = True\<rparr>"
    by (simp add: s_def state0_def deref_def)
  have f: "fst (build_atoms (fm_env True) noErr (Some 0) 0x616C6973 s) =
             (True, noErr, Some 1, Some 2)"
    using build_atoms_granted [OF v, where E = "fm_env True" and ?w1.0 = "os s"
        and ?w2.0 = "os s" and ?w3.0 = "os s" and ?e0.0 = noErr and ty = "0x616C6973"]
    by (simp add: fm_alloc_granted fm_PtrAndHand_granted word_sle_eq s_def state0_def
        fm_world0_def)
  have h3: "deref (heap s) (Some 0) = Some \<lparr>contents = [], locked = True\<rparr>
      \<and> length (contents \<lparr>contents = ([] :: byte list), locked = True\<rparr>) + 28 < 2 ^ 32
      \<and> fst (build_atoms (fm_env True) noErr (Some 0) 0x616C6973 s) = (True, noErr, Some 1, Some 2)"
    using v f by simp
  show ?thesis
    using t [where theHandle = None, THEN conjunct1, rule_format, OF h1]
      t [where theHandle = "Some 0", THEN conjunct1, rule_format, OF h2]
      t [where theDataRef = "Some 0" and tag = "0x616C6973" and ?e0.0 = noErr,
         THEN conjunct2, rule_format, OF h3]
    by (simp add: s_def [symmetric]) (simp add: s_def state0_def)
qed

subsection \<open>The writer only reads the buffer\<close>

text \<open>
  Claim C10. The writer never changes the bytes of the buffer it is given: after the
  call, whether it succeeded or failed, every block of the heap, the buffer among them,
  holds the bytes it held before. (Only the lock flag of the buffer's block may differ.)
\<close>

theorem writer_reads_only:
  "block_bytes (heap (snd (QTShortCut_WriteHandleToFile E theHandle spec s))) p
     = block_bytes (heap s) p
 \<and> map (map_option contents) (heap (snd (QTShortCut_WriteHandleToFile E theHandle spec s)))
     = map (map_option contents) (heap s)"
  using writer_keeps_bytes [of E theHandle spec s p] writer_keeps_contents [of E theHandle spec s]
  by (intro conjI)

theorem writer_reads_only_witness:
  "block_bytes (heap (snd (QTShortCut_WriteHandleToFile (fm_env True) (Some 0) ''shortcut''
      (state0 [Some \<lparr>contents = [1, 2, 3], locked = True\<rparr>] (fm_world0 0 [0, 0, 0, 0, ioErr])))))
     (Some 0) = [1, 2, 3]"
  using writer_reads_only [where E = "fm_env True" and theHandle = "Some 0"
      and spec = "''shortcut''" and p = "Some 0"
      and s = "state0 [Some \<lparr>contents = [1, 2, 3], locked = True\<rparr>]
                 (fm_world0 0 [0, 0, 0, 0, ioErr])"]
  by (simp add: state0_def block_bytes_def deref_def)

subsection \<open>What a successful write leaves in the file\<close>

text \<open>
  Claim C2. On the reference File Manager, whenever the writer returns \<open>noErr\<close> the target
  holds exactly the bytes of the buffer, no more and no less (for a buffer whose length
  fits the 32-bit \<^verbatim>\<open>Size\<close>). In particular, when a buffer \<open>A\<close> and then a shorter buffer \<open>B\<close>
  are written to the same target and both calls succeed, the target holds exactly \<open>A\<close>
  after the first call and exactly \<open>B\<close> after the second, with no bytes of \<open>A\<close> left over.
\<close>

theorem write_exact_contents:
  "(length (block_bytes (heap s) theHandle) < 2 ^ 32
      \<and> fst (QTShortCut_WriteHandleToFile (fm_env mac) theHandle spec s) = noErr \<longrightarrow>
      map_option fdata
        (files (os (snd (QTShortCut_WriteHandleToFile (fm_env mac) theHandle spec s))) spec)
        = Some (block_bytes (heap s) theHandle))
 \<and> (length (block_bytes (heap s) hB) < length (block_bytes (heap s) hA)
      \<and> length (block_bytes (heap s) hA) < 2 ^ 32
      \<and> fst (QTShortCut_WriteHandleToFile (fm_env mac) hA spec s) = noErr
      \<and> fst (QTShortCut_WriteHandleToFile (fm_env mac) hB spec
                (snd (QTShortCut_WriteHandleToFile (fm_env mac) hA spec s))) = noErr \<longrightarrow>
      map_option fdata
        (files (os (snd (QTShortCut_WriteHandleToFile (fm_env mac) hA spec s))) spec)
        = Some (block_bytes (heap s) hA)
    \<and> map_option fdata
        (files (os (snd (QTShortCut_WriteHandleToFile (fm_env mac) hB spec
                           (snd (QTShortCut_WriteHandleToFile (fm_env mac) hA spec s))))) spec)
        = Some (block_bytes (heap s) hB))"
proof (intro conjI impI)
  assume "length (block_bytes (heap s) theHandle) < 2 ^ 32
      \<and> fst (QTShortCut_WriteHandleToFile (fm_env mac) theHandle spec s) = noErr"
  then show "map_option fdata
        (files (os (snd (QTShortCut_WriteHandleToFile (fm_env mac) theHandle spec s))) spec)
        = Some (block_bytes (heap s) theHandle)"
    using writer_fm_success [of s theHandle mac spec] by blast
next
  assume a: "length (block_bytes (heap s) hB) < length (block_bytes (heap s) hA)
      \<and> length (block_bytes (heap s) hA) < 2 ^ 32
      \<and> fst (QTShortCut_WriteHandleToFile (fm_env mac) hA spec s) = noErr
      \<and> fst (QTShortCut_WriteHandleToFile (fm_env mac) hB spec
                (snd (QTShortCut_WriteHandleToFile (fm_env mac) hA spec s))) = noErr"
  define s1 where "s1 = snd (QTShortCut_WriteHandleToFile (fm_env mac) hA spec s)"
  have kb: "block_bytes (heap s1) hB = block_bytes (heap s) hB"
    unfolding s1_def by (rule writer_keeps_bytes)
  have lb: "length (block_bytes (heap s1) hB) < 2 ^ 32"
    using a by (simp add: kb)
  show "map_option fdata
        (files (os (snd (QTShortCut_WriteHandleToFile (fm_env mac) hA spec s))) spec)
        = Some (block_bytes (heap s) hA)"
    using writer_fm_success [of s hA mac spec] a by blast
  have "map_option fdata
        (files (os (snd (QTShortCut_WriteHandleToFile (fm_env mac) hB spec s1))) spec)
        = Some (block_bytes (heap s1) hB)"
    using writer_fm_success [of s1 hB mac spec, OF lb] a by (simp add: s1_def)
  then show "map_option fdata
        (files (os (snd (QTShortCut_WriteHandleToFile (fm_env mac) hB spec
                           (snd (QTShortCut_WriteHandleToFile (fm_env mac) hA spec s))))) spec)
        = Some (block_bytes (heap s) hB)"
    by (simp add: kb s1_def [symmetric])
qed

lemma writer_run_A:
  "QTShortCut_WriteHandleToFile (fm_env False) (Some 0) ''shortcut''
      (state0 [Some \<lparr>contents = [1, 2, 3], locked = False\<rparr>,
               Some \<lparr>contents = [9], locked = False\<rparr>] (fm_world0 0 []))
   = (noErr,
      \<lparr>heap = [Some \<lparr>contents = [1, 2, 3], locked = False\<rparr>,
               Some \<lparr>contents = [9], locked = False\<rparr>],
       trace = [(FSpDelete_call ''shortcut'', fnfErr), (FSpCreate_call ''shortcut'', noErr),
                (FSpOpenDF_call ''shortcut'', noErr), (SetFPos_call 2 0, noErr),
                (FSWrite_call 2 3 [1, 2, 3], noErr), (SetFPos_call 2 3, noErr),
                (SetEOF_call 2 3, noErr), (FSClose_call 2, noErr)],
       os = \<lparr>qt_version = 0, faults = [],
              files = (\<lambda>_. None)(''shortcut'' := Some \<lparr>fdata = [1, 2, 3],
                         fcreator = 0x54564F44, ftype = 0x4D6F6F56\<rparr>),
              forks = [], vref_reply = (\<lambda>_. (noErr, - 1))\<rparr>\<rparr>)"
  by (simp add: writer_defs stmt_defs call_defs fm_defs noErr_def fnfErr_def paramErr_def)


theorem write_exact_contents_witness:
  "map_option fdata
     (files (os (snd (QTShortCut_WriteHandleToFile (fm_env False) (Some 1) ''shortcut''
        (snd (QTShortCut_WriteHandleToFile (fm_env False) (Some 0) ''shortcut''
           (state0 [Some \<lparr>contents = [1, 2, 3], locked = False\<rparr>,
                    Some \<lparr>contents = [9], locked = False\<rparr>] (fm_world0 0 []))))))) ''shortcut'')
   = Some [9]"
proof -
  define s where "s = state0 [Some \<lparr>contents = [1, 2, 3 :: byte], locked = False\<rparr>,
                             Some \<lparr>contents = [9], locked = False\<rparr>] (fm_world0 0 [])"
  have bA: "block_bytes (heap s) (Some 0) = [1, 2, 3]"
    and bB: "block_bytes (heap s) (Some 1) = [9]"
    by (simp_all add: s_def state0_def block_bytes_def deref_def)
  have okA: "fst (QTShortCut_WriteHandleToFile (fm_env False) (Some 0) ''shortcut'' s) = noErr"
    unfolding s_def writer_run_A by simp
  have okB: "fst (QTShortCut_WriteHandleToFile (fm_env False) (Some 1) ''shortcut''
                (snd (QTShortCut_WriteHandleToFile (fm_env False) (Some 0) ''shortcut'' s))) = noErr"
    unfolding s_def writer_run_A
    by (simp add: writer_defs stmt_defs call_defs fm_defs noErr_def fnfErr_def paramErr_def)
  have h: "length (block_bytes (heap s) (Some 1)) < length (block_bytes (heap s) (Some 0))
      \<and> length (block_bytes (heap s) (Some 0)) < 2 ^ 32
      \<and> fst (QTShortCut_WriteHandleToFile (fm_env False) (Some 0) ''shortcut'' s) = noErr
      \<and> fst (QTShortCut_WriteHandleToFile (fm_env False) (Some 1) ''shortcut''
                (snd (QTShortCut_WriteHandleToFile (fm_env False) (Some 0) ''shortcut'' s))) = noErr"
    unfolding bA bB using okA okB by simp
  note res = write_exact_contents [where mac = False and s = s and hA = "Some 0"
        and hB = "Some 1" and spec = "''shortcut''", THEN conjunct2, rule_format, OF h,
        THEN conjunct2, unfolded bB]
  show ?thesis
    using res unfolding s_def .
qed

subsection \<open>The order of the writer's calls\<close>

text \<open>
  Against claim C8: the target exists and its data fork is open, so the removal fails
  with \<open>fBsyErr\<close>. The writer goes on to \<^verbatim>\<open>FSpCreate\<close>, which fails with \<open>dupFNErr\<close>, and it is
  that code, not the removal's, that the caller gets.
\<close>

theorem removal_failure_does_not_abort:
  "QTShortCut_WriteHandleToFile (fm_env False) (Some 0) ''shortcut''
      (state0 [Some \<lparr>contents = [1, 2, 3], locked = False\<rparr>]
         ((fm_world0 0 [])
            \<lparr>files := (\<lambda>_. None)(''shortcut'' := Some \<lparr>fdata = [7, 7], fcreator = 0, ftype = 0\<rparr>),
             forks := [(5, ''shortcut'', 0)]\<rparr>))
   = (dupFNErr,
      \<lparr>heap = [Some \<lparr>contents = [1, 2, 3], locked = False\<rparr>],
       trace = [(FSpDelete_call ''shortcut'', fBsyErr), (FSpCreate_call ''shortcut'', dupFNErr)],
       os = (fm_world0 0 [])
            \<lparr>files := (\<lambda>_. None)(''shortcut'' := Some \<lparr>fdata = [7, 7], fcreator = 0, ftype = 0\<rparr>),
             forks := [(5, ''shortcut'', 0)]\<rparr>\<rparr>)"
  by (simp add: writer_defs stmt_defs call_defs fm_defs noErr_def fnfErr_def paramErr_def
      fBsyErr_def dupFNErr_def)

text \<open>
  Claim C8, amended. The writer's calls are made in the fixed order \<^verbatim>\<open>FSpDelete\<close>,
  \<^verbatim>\<open>FSpCreate\<close>, \<^verbatim>\<open>FSpOpenDF\<close>, \<^verbatim>\<open>SetFPos\<close>, \<^verbatim>\<open>FSWrite\<close>, \<^verbatim>\<open>SetFPos\<close>, \<^verbatim>\<open>SetEOF\<close>,
  \<^verbatim>\<open>FSClose\<close> (and \<^verbatim>\<open>GetVRefNum\<close>, \<^verbatim>\<open>FlushVol\<close> on the Macintosh). \<^verbatim>\<open>FSpCreate\<close> always
  follows \<^verbatim>\<open>FSpDelete\<close>, whatever the removal answered. From \<^verbatim>\<open>FSpCreate\<close> on, a call is made
  only if every call before it (the removal apart) answered \<open>noErr\<close>: the first one that
  fails is the last call made, and its result code is what the writer returns. The result
  is a bare \<^verbatim>\<open>OSErr\<close>; nothing in it names the stage.
\<close>

theorem writer_call_order:
  assumes "theHandle \<noteq> None" and "GetHandleSize theHandle s \<noteq> 0"
    and "r = QTShortCut_WriteHandleToFile E theHandle spec s"
    and "T = drop (length (trace s)) (trace (snd r))"
  shows "trace (snd r) = trace s @ T
       \<and> 2 \<le> length T
       \<and> map (\<lambda>ev. call_name (fst ev)) T = take (length T) (writer_sequence (TARGET_OS_MAC E))
       \<and> map snd (butlast (tl T)) = replicate (length T - 2) noErr
       \<and> fst r = snd (last T)
       \<and> (fst r = noErr \<longrightarrow> length T = length (writer_sequence (TARGET_OS_MAC E)))"
proof -
  define f0 :: "'a locals" where "f0 = \<lparr>myErr = paramErr, myRefNum = 0, myVolNum = 0,
                   mySize = GetHandleSize theHandle s, st = HLock theHandle s\<rparr>"
  define f where "f = write_steps E theHandle spec f0"
  have r: "r = (myErr f, HUnlock theHandle (st f))"
    unfolding assms(3) QTShortCut_WriteHandleToFile_def
    by (simp add: assms(1,2) Let_def f_def f0_def)
  have "run_ok (writer_sequence (TARGET_OS_MAC E)) (trace s)
          (length (writer_sequence (TARGET_OS_MAC E))) f"
    using write_steps_run_ok [of E f0 theHandle spec] by (simp add: f_def f0_def)
  then obtain T' where T': "trace (st f) = trace s @ T'" "2 \<le> length T'"
    "map (\<lambda>ev. call_name (fst ev)) T' = take (length T') (writer_sequence (TARGET_OS_MAC E))"
    "map snd (butlast (tl T')) = replicate (length T' - 2) noErr"
    "myErr f = snd (last T')"
    "myErr f = noErr \<longrightarrow> length T' = length (writer_sequence (TARGET_OS_MAC E))"
    by (auto simp: run_ok_def)
  have "T = T'"
    by (simp add: assms(4) r T'(1))
  then show ?thesis
    using T' r by simp
qed


theorem writer_call_order_witness:
  "fst (QTShortCut_WriteHandleToFile (fm_env True) (Some 0) ''shortcut''
      (state0 [Some \<lparr>contents = [1, 2, 3], locked = False\<rparr>] (fm_world0 0 [0, 0, 0, 0, ioErr])))
     = ioErr
 \<and> map (\<lambda>ev. call_name (fst ev))
      (trace (snd (QTShortCut_WriteHandleToFile (fm_env True) (Some 0) ''shortcut''
         (state0 [Some \<lparr>contents = [1, 2, 3], locked = False\<rparr>]
            (fm_world0 0 [0, 0, 0, 0, ioErr])))))
     = [''FSpDelete'', ''FSpCreate'', ''FSpOpenDF'', ''SetFPos'', ''FSWrite'']
 \<and> fst (QTShortCut_WriteHandleToFile (fm_env True) (Some 0) ''shortcut''
      (state0 [Some \<lparr>contents = [1, 2, 3], locked = False\<rparr>] (fm_world0 0 [0, 0, 0, 0, ioErr])))
     = snd (last (trace (snd (QTShortCut_WriteHandleToFile (fm_env True) (Some 0) ''shortcut''
         (state0 [Some \<lparr>contents = [1, 2, 3], locked = False\<rparr>]
            (fm_world0 0 [0, 0, 0, 0, ioErr]))))))"
proof -
  define s where "s = state0 [Some \<lparr>contents = [1, 2, 3 :: byte], locked = False\<rparr>]
                        (fm_world0 0 [0, 0, 0, 0, ioErr])"
  have h1: "Some (0 :: nat) \<noteq> None"
    by simp
  have h2: "GetHandleSize (Some 0) s \<noteq> 0"
    by (simp add: s_def state0_def GetHandleSize_def block_bytes_def deref_def)
  have ev: "fst (QTShortCut_WriteHandleToFile (fm_env True) (Some 0) ''shortcut'' s) = ioErr"
    "length (trace (snd (QTShortCut_WriteHandleToFile (fm_env True) (Some 0) ''shortcut'' s))) = 5"
    by (simp_all add: s_def writer_defs stmt_defs call_defs fm_defs noErr_def fnfErr_def
        paramErr_def ioErr_def)
  have t0: "trace s = []"
    by (simp add: s_def state0_def)
  show ?thesis
    using writer_call_order [OF h1 h2 refl refl, where E = "fm_env True" and spec = "''shortcut''"]
      ev
    by (simp add: s_def [symmetric] t0 writer_sequence_def)
qed

subsection \<open>The result of the removal\<close>

lemma core_whenOK:
  assumes "core f = core f'"
    and "\<And>g g'. core g = core g' \<Longrightarrow> core (stmt g) = core (stmt' g')"
  shows "core (whenOK stmt f) = core (whenOK stmt' f')"
proof -
  have "myErr f = myErr f'"
    using assms(1) by (simp add: core_def)
  then show ?thesis
    using assms by (simp add: whenOK_def)
qed

lemma core_stmts:
  assumes "core g = core g'"
  shows "core (stmt_FSpOpenDF (E\<lparr>os_FSpDelete := D\<rparr>) spec g) = core (stmt_FSpOpenDF E spec g')"
    and "core (stmt_SetFPos (E\<lparr>os_FSpDelete := D\<rparr>) (\<lambda>_. 0) g) = core (stmt_SetFPos E (\<lambda>_. 0) g')"
    and "core (stmt_FSWrite (E\<lparr>os_FSpDelete := D\<rparr>) h g) = core (stmt_FSWrite E h g')"
    and "core (stmt_SetFPos (E\<lparr>os_FSpDelete := D\<rparr>) mySize g) = core (stmt_SetFPos E mySize g')"
    and "core (stmt_SetEOF (E\<lparr>os_FSpDelete := D\<rparr>) g) = core (stmt_SetEOF E g')"
    and "core (stmt_FSClose (E\<lparr>os_FSpDelete := D\<rparr>) g) = core (stmt_FSClose E g')"
    and "core (stmt_GetVRefNum (E\<lparr>os_FSpDelete := D\<rparr>) g) = core (stmt_GetVRefNum E g')"
    and "core (stmt_FlushVol (E\<lparr>os_FSpDelete := D\<rparr>) g) = core (stmt_FlushVol E g')"
  using assms
  by (simp_all add: core_def stmt_FSpOpenDF_sel stmt_SetFPos_sel stmt_FSWrite_sel stmt_SetEOF_sel
      stmt_FSClose_sel stmt_GetVRefNum_sel stmt_FlushVol_sel)

lemma core_first_two:
  "core (stmt_FSpCreate (E\<lparr>os_FSpDelete := \<lambda>sp w. (e' sp w, snd (os_FSpDelete E sp w))\<rparr>) spec
          (stmt_FSpDelete (E\<lparr>os_FSpDelete := \<lambda>sp w. (e' sp w, snd (os_FSpDelete E sp w))\<rparr>)
             spec f0))
   = core (stmt_FSpCreate E spec (stmt_FSpDelete E spec f0))"
  by (simp add: core_def stmt_FSpCreate_sel stmt_FSpDelete_sel)

lemma core_write_steps:
  "core (write_steps (E\<lparr>os_FSpDelete := \<lambda>sp w. (e' sp w, snd (os_FSpDelete E sp w))\<rparr>) h spec f0)
   = core (write_steps E h spec f0)"
proof -
  define E' where "E' = E\<lparr>os_FSpDelete := \<lambda>sp w. (e' sp w, snd (os_FSpDelete E sp w))\<rparr>"
  define f2 where "f2 = stmt_FSpCreate E spec (stmt_FSpDelete E spec f0)"
  define f2' where "f2' = stmt_FSpCreate E' spec (stmt_FSpDelete E' spec f0)"
  define f3 where "f3 = whenOK (stmt_FSpOpenDF E spec) f2"
  define f3' where "f3' = whenOK (stmt_FSpOpenDF E' spec) f2'"
  define f4 where "f4 = whenOK (stmt_SetFPos E (\<lambda>_. 0)) f3"
  define f4' where "f4' = whenOK (stmt_SetFPos E' (\<lambda>_. 0)) f3'"
  define f5 where "f5 = whenOK (stmt_FSWrite E h) f4"
  define f5' where "f5' = whenOK (stmt_FSWrite E' h) f4'"
  define f6 where "f6 = whenOK (stmt_SetFPos E mySize) f5"
  define f6' where "f6' = whenOK (stmt_SetFPos E' mySize) f5'"
  define f7 where "f7 = whenOK (stmt_SetEOF E) f6"
  define f7' where "f7' = whenOK (stmt_SetEOF E') f6'"
  define f8 where "f8 = whenOK (stmt_FSClose E) f7"
  define f8' where "f8' = whenOK (stmt_FSClose E') f7'"
  have c2: "core f2' = core f2"
    unfolding f2_def f2'_def E'_def by (rule core_first_two)
  have c3: "core f3' = core f3"
    unfolding f3_def f3'_def E'_def by (rule core_whenOK [OF c2]) (rule core_stmts)
  have c4: "core f4' = core f4"
    unfolding f4_def f4'_def E'_def by (rule core_whenOK [OF c3]) (rule core_stmts)
  have c5: "core f5' = core f5"
    unfolding f5_def f5'_def E'_def by (rule core_whenOK [OF c4]) (rule core_stmts)
  have c6: "core f6' = core f6"
    unfolding f6_def f6'_def E'_def by (rule core_whenOK [OF c5]) (rule core_stmts)
  have c7: "core f7' = core f7"
    unfolding f7_def f7'_def E'_def by (rule core_whenOK [OF c6]) (rule core_stmts)
  have c8: "core f8' = core f8"
    unfolding f8_def f8'_def E'_def by (rule core_whenOK [OF c7]) (rule core_stmts)
  have c9: "core (whenOK (stmt_GetVRefNum E') f8') = core (whenOK (stmt_GetVRefNum E) f8)"
    unfolding E'_def by (rule core_whenOK [OF c8]) (rule core_stmts)
  have c10: "core (whenOK (stmt_FlushVol E') (whenOK (stmt_GetVRefNum E') f8'))
           = core (whenOK (stmt_FlushVol E) (whenOK (stmt_GetVRefNum E) f8))"
    unfolding E'_def by (rule core_whenOK [OF c9 [unfolded E'_def]]) (rule core_stmts)
  have ws: "write_steps E h spec f0 =
      (if TARGET_OS_MAC E then whenOK (stmt_FlushVol E) (whenOK (stmt_GetVRefNum E) f8) else f8)"
    by (simp add: write_steps_def Let_def f8_def f7_def f6_def f5_def f4_def f3_def f2_def)
  have ws': "write_steps E' h spec f0 =
      (if TARGET_OS_MAC E then whenOK (stmt_FlushVol E') (whenOK (stmt_GetVRefNum E') f8') else f8')"
    by (simp add: write_steps_def Let_def f8'_def f7'_def f6'_def f5'_def f4'_def f3'_def f2'_def)
       (simp add: E'_def)
  show ?thesis
    unfolding E'_def [symmetric] ws ws' using c8 c10 by simp
qed

lemma writer_ignores_delete_reply:
  "fst (QTShortCut_WriteHandleToFile
          (E\<lparr>os_FSpDelete := \<lambda>sp w. (e' sp w, snd (os_FSpDelete E sp w))\<rparr>) h spec s)
     = fst (QTShortCut_WriteHandleToFile E h spec s)"
  "os (snd (QTShortCut_WriteHandleToFile
          (E\<lparr>os_FSpDelete := \<lambda>sp w. (e' sp w, snd (os_FSpDelete E sp w))\<rparr>) h spec s))
     = os (snd (QTShortCut_WriteHandleToFile E h spec s))"
  "heap (snd (QTShortCut_WriteHandleToFile
          (E\<lparr>os_FSpDelete := \<lambda>sp w. (e' sp w, snd (os_FSpDelete E sp w))\<rparr>) h spec s))
     = heap (snd (QTShortCut_WriteHandleToFile E h spec s))"
  using core_write_steps [where E = E and e' = e' and h = h and spec = spec
      and ?f0.0 = "\<lparr>myErr = paramErr, myRefNum = 0, myVolNum = 0,
                   mySize = GetHandleSize h s, st = HLock h s\<rparr>"]
  by (simp_all add: QTShortCut_WriteHandleToFile_def Let_def core_def HUnlock_def)

text \<open>
  Against claim C4: the removal fails with \<open>ioErr\<close>, which is not the absence of the file
  (\<open>fnfErr\<close>); the writer goes on, every later call succeeds, and the caller gets \<open>noErr\<close>.
\<close>

theorem removal_failure_ignored:
  "QTShortCut_WriteHandleToFile (fm_env False) (Some 0) ''shortcut''
      (state0 [Some \<lparr>contents = [1, 2, 3], locked = False\<rparr>] (fm_world0 0 [ioErr]))
   = (noErr,
      \<lparr>heap = [Some \<lparr>contents = [1, 2, 3], locked = False\<rparr>],
       trace = [(FSpDelete_call ''shortcut'', ioErr), (FSpCreate_call ''shortcut'', noErr),
                (FSpOpenDF_call ''shortcut'', noErr), (SetFPos_call 2 0, noErr),
                (FSWrite_call 2 3 [1, 2, 3], noErr), (SetFPos_call 2 3, noErr),
                (SetEOF_call 2 3, noErr), (FSClose_call 2, noErr)],
       os = \<lparr>qt_version = 0, faults = [],
              files = (\<lambda>_. None)(''shortcut'' := Some \<lparr>fdata = [1, 2, 3],
                         fcreator = 0x54564F44, ftype = 0x4D6F6F56\<rparr>),
              forks = [], vref_reply = (\<lambda>_. (noErr, - 1))\<rparr>\<rparr>)"
  by (simp add: writer_defs stmt_defs call_defs fm_defs noErr_def fnfErr_def paramErr_def
      ioErr_def)

text \<open>
  Claim C4, amended. The writer discards the result of the removal, whatever it is:
  with the removal's answer replaced by any other code (and its effect kept), the writer
  returns the same result and leaves the same world. Absence of the target is one such
  answer: on the reference File Manager, when the target does not exist (and no failure
  is injected), \<^verbatim>\<open>FSpDelete\<close> answers \<open>fnfErr\<close> and the writer succeeds and leaves the
  buffer in the file.
\<close>

theorem removal_result_discarded:
  "fst (QTShortCut_WriteHandleToFile
          (E\<lparr>os_FSpDelete := \<lambda>sp w. (e' sp w, snd (os_FSpDelete E sp w))\<rparr>) h spec s)
     = fst (QTShortCut_WriteHandleToFile E h spec s)
 \<and> os (snd (QTShortCut_WriteHandleToFile
          (E\<lparr>os_FSpDelete := \<lambda>sp w. (e' sp w, snd (os_FSpDelete E sp w))\<rparr>) h spec s))
     = os (snd (QTShortCut_WriteHandleToFile E h spec s))
 \<and> (deref (heap t) h = Some b \<and> 0 < length (contents b) \<and> length (contents b) < 2 ^ 31
      \<and> faults (os t) = [] \<and> files (os t) spec = None
      \<and> (mac \<longrightarrow> fst (vref_reply (os t) (word_of_nat (2 + length (forks (os t))))) = noErr)
    \<longrightarrow>
      fst (FSpDelete (fm_env mac) spec t) = fnfErr
    \<and> fst (QTShortCut_WriteHandleToFile (fm_env mac) h spec t) = noErr
    \<and> map_option fdata (files (os (snd (QTShortCut_WriteHandleToFile (fm_env mac) h spec t))) spec)
        = Some (contents b))"
proof (intro conjI impI)
  show "fst (QTShortCut_WriteHandleToFile
          (E\<lparr>os_FSpDelete := \<lambda>sp w. (e' sp w, snd (os_FSpDelete E sp w))\<rparr>) h spec s)
     = fst (QTShortCut_WriteHandleToFile E h spec s)"
    by (rule writer_ignores_delete_reply)
  show "os (snd (QTShortCut_WriteHandleToFile
          (E\<lparr>os_FSpDelete := \<lambda>sp w. (e' sp w, snd (os_FSpDelete E sp w))\<rparr>) h spec s))
     = os (snd (QTShortCut_WriteHandleToFile E h spec s))"
    by (rule writer_ignores_delete_reply)
next
  assume a: "deref (heap t) h = Some b \<and> 0 < length (contents b) \<and> length (contents b) < 2 ^ 31
      \<and> faults (os t) = [] \<and> files (os t) spec = None
      \<and> (mac \<longrightarrow> fst (vref_reply (os t) (word_of_nat (2 + length (forks (os t))))) = noErr)"
  show "fst (FSpDelete (fm_env mac) spec t) = fnfErr"
    using a by (simp add: FSpDelete_def fm_FSpDelete_def fm_fault_def noErr_def)
  have w: "fst (QTShortCut_WriteHandleToFile (fm_env mac) h spec t) = noErr
       \<and> map_option fdata (files (os (snd (QTShortCut_WriteHandleToFile (fm_env mac) h spec t)))
            spec) = Some (contents b)"
    using a by (intro writer_fm_absent) simp_all
  show "fst (QTShortCut_WriteHandleToFile (fm_env mac) h spec t) = noErr"
    using w by (rule conjunct1)
  show "map_option fdata (files (os (snd (QTShortCut_WriteHandleToFile (fm_env mac) h spec t))) spec)
        = Some (contents b)"
    using w by (rule conjunct2)
qed

theorem removal_result_discarded_witness:
  "fst (QTShortCut_WriteHandleToFile
          ((fm_env False)\<lparr>os_FSpDelete := \<lambda>sp w. (ioErr, snd (fm_FSpDelete sp w))\<rparr>) (Some 0)
          ''shortcut''
          (state0 [Some \<lparr>contents = [1, 2, 3], locked = False\<rparr>] (fm_world0 0 [])))
     = noErr
 \<and> fst (FSpDelete (fm_env False) ''shortcut''
          (state0 [Some \<lparr>contents = [1, 2, 3], locked = False\<rparr>] (fm_world0 0 []))) = fnfErr
 \<and> map_option fdata (files (os (snd (QTShortCut_WriteHandleToFile (fm_env False) (Some 0)
          ''shortcut''
          (state0 [Some \<lparr>contents = [1, 2, 3], locked = False\<rparr>] (fm_world0 0 []))))) ''shortcut'')
     = Some [1, 2, 3]"
proof -
  define s where "s = state0 [Some \<lparr>contents = [1, 2, 3 :: byte], locked = False\<rparr>] (fm_world0 0 [])"
  note t = removal_result_discarded [where E = "fm_env False" and e' = "\<lambda>_ _. ioErr"
      and h = "Some 0" and spec = "''shortcut''" and s = s and t = s and mac = False
      and b = "\<lparr>contents = [1, 2, 3], locked = False\<rparr>"]
  have h: "deref (heap s) (Some 0) = Some \<lparr>contents = [1, 2, 3], locked = False\<rparr>
      \<and> 0 < length (contents \<lparr>contents = [1, 2, 3 :: byte], locked = False\<rparr>)
      \<and> length (contents \<lparr>contents = [1, 2, 3 :: byte], locked = False\<rparr>) < 2 ^ 31
      \<and> faults (os s) = [] \<and> files (os s) ''shortcut'' = None
      \<and> (False \<longrightarrow> fst (vref_reply (os s) (word_of_nat (2 + length (forks (os s))))) = noErr)"
    by (simp add: s_def state0_def fm_world0_def deref_def)
  have b: "fst (FSpDelete (fm_env False) ''shortcut'' s) = fnfErr
    \<and> fst (QTShortCut_WriteHandleToFile (fm_env False) (Some 0) ''shortcut'' s) = noErr
    \<and> map_option fdata
        (files (os (snd (QTShortCut_WriteHandleToFile (fm_env False) (Some 0) ''shortcut'' s)))
           ''shortcut'')
        = Some (contents \<lparr>contents = [1, 2, 3], locked = False\<rparr>)"
    using t [THEN conjunct2, THEN conjunct2, rule_format, OF h] .
  have a: "fst (QTShortCut_WriteHandleToFile
          ((fm_env False)\<lparr>os_FSpDelete := \<lambda>sp w. (ioErr, snd (os_FSpDelete (fm_env False) sp w))\<rparr>)
          (Some 0) ''shortcut'' s)
     = fst (QTShortCut_WriteHandleToFile (fm_env False) (Some 0) ''shortcut'' s)"
    using t [THEN conjunct1] .
  show ?thesis
    using a b unfolding s_def [symmetric] by simp
qed

end
